theory Spec2Isabelle
  imports Complex_Main
begin

section \<open>Python preliminaries\<close>

text \<open>
  The engine is Python. Its numbers are \<^verbatim>\<open>float\<close> and \<^verbatim>\<open>Decimal\<close> values; both are
  modelled as exact reals, so rounding is outside the model, while every branch, comparison,
  raise and handler of the source is kept. Clock readings (\<^verbatim>\<open>time.time()\<close>) and the answers
  of the exchange are inputs of the modelled functions.
\<close>

datatype py_error =
  NameError | TypeError | ZeroDivisionError | ValueError | IndexError | KeyError | DecimalError

text \<open>\<^verbatim>\<open>int(x)\<close> on a float truncates towards zero.\<close>

definition py_int :: "real \<Rightarrow> int" where
  "py_int x = (if 0 \<le> x then \<lfloor>x\<rfloor> else \<lceil>x\<rceil>)"

text \<open>Float division raises on a zero divisor; so does \<^verbatim>\<open>Decimal\<close> division, with its own
  exception class (an \<^verbatim>\<open>ArithmeticError\<close>).\<close>

definition py_div :: "real \<Rightarrow> real \<Rightarrow> py_error + real" where
  "py_div a b = (if b = 0 then Inl ZeroDivisionError else Inr (a / b))"

definition dec_div :: "real \<Rightarrow> real \<Rightarrow> py_error + real" where
  "dec_div a b = (if b = 0 then Inl DecimalError else Inr (a / b))"

text \<open>The slices \<^verbatim>\<open>xs[i:]\<close> and \<^verbatim>\<open>xs[:j]\<close>, where a negative index counts from the end.\<close>

definition slice_from :: "'a list \<Rightarrow> int \<Rightarrow> 'a list" where
  "slice_from xs i =
     (if i < 0 then drop (nat (int (length xs) + i)) xs else drop (nat i) xs)"

definition slice_to :: "'a list \<Rightarrow> int \<Rightarrow> 'a list" where
  "slice_to xs j =
     (if j < 0 then take (nat (int (length xs) + j)) xs else take (nat j) xs)"

text \<open>\<^verbatim>\<open>deque(maxlen=n).append(x)\<close>: the oldest element leaves when the deque is full.\<close>

definition deque_append :: "nat \<Rightarrow> 'a list \<Rightarrow> 'a \<Rightarrow> 'a list" where
  "deque_append maxlen xs x = drop (length xs + 1 - maxlen) (xs @ [x])"

section \<open>BarAggregator (strategy.py)\<close>

text \<open>
  The in-progress bar is the tuple \<^verbatim>\<open>(bucket, o, h, l, c)\<close>; a closed bar is the same tuple
  with the summed volume appended, so index 4 is the close and index 5 the volume.
\<close>

record cur_bar =
  b_start :: real
  b_open :: real
  b_high :: real
  b_low :: real
  b_close :: real

record bar = cur_bar +
  b_volume :: real

record aggregator =
  bar_period :: real
  max_bars :: nat
  bars :: "bar list"
  current_bar :: "cur_bar option"
  current_bar_start :: real
  trade_volumes :: "real list"

definition new_aggregator :: "real \<Rightarrow> nat \<Rightarrow> aggregator" where
  "new_aggregator bar_period_sec maxb =
     \<lparr>bar_period = bar_period_sec, max_bars = maxb, bars = [], current_bar = None,
      current_bar_start = 0, trade_volumes = []\<rparr>"

definition close_bar :: "cur_bar \<Rightarrow> real \<Rightarrow> bar" where
  "close_bar cb total_vol = cur_bar.extend cb \<lparr>b_volume = total_vol\<rparr>"

definition bar_bucket :: "real \<Rightarrow> real \<Rightarrow> real" where
  "bar_bucket period server_now = of_int (py_int (server_now / period)) * period"

text \<open>
  \<^verbatim>\<open>add_tick(price, volume)\<close>; \<open>server_now\<close> is the reading
  \<^verbatim>\<open>time.time() + order_manager.time_offset\<close> taken on entry. The division by the bar
  period raises when the period is zero.
\<close>

definition add_tick :: "real \<Rightarrow> real \<Rightarrow> real \<Rightarrow> aggregator \<Rightarrow> py_error + aggregator" where
  "add_tick server_now price volume a =
     (if bar_period a = 0 then Inl ZeroDivisionError
      else
        let bucket = bar_bucket (bar_period a) server_now;
            a1 = (if current_bar a = None \<or> bucket > current_bar_start a
                  then
                    (let a0 = (case current_bar a of
                                 None \<Rightarrow> a
                               | Some cb \<Rightarrow>
                                   a\<lparr>bars := deque_append (max_bars a) (bars a)
                                               (close_bar cb (sum_list (trade_volumes a)))\<rparr>)
                     in a0\<lparr>current_bar_start := bucket,
                           current_bar := Some \<lparr>b_start = bucket, b_open = price, b_high = price,
                                                b_low = price, b_close = price\<rparr>,
                           trade_volumes := []\<rparr>)
                  else a)
        in (case current_bar a1 of
              None \<Rightarrow> Inl TypeError
            | Some cb \<Rightarrow>
                Inr (a1\<lparr>current_bar := Some \<lparr>b_start = bucket, b_open = b_open cb,
                                              b_high = max (b_high cb) price,
                                              b_low = min (b_low cb) price, b_close = price\<rparr>,
                         trade_volumes := (if volume > 0 then trade_volumes a1 @ [volume]
                                           else trade_volumes a1)\<rparr>)))"

text \<open>\<^verbatim>\<open>get_closes(n)\<close> and \<^verbatim>\<open>get_bars(n)\<close>: a falsy \<open>n\<close> (\<^verbatim>\<open>None\<close> or 0) gives all.\<close>

definition get_bars :: "aggregator \<Rightarrow> int option \<Rightarrow> bar list" where
  "get_bars a n = (case n of None \<Rightarrow> bars a
                   | Some k \<Rightarrow> if k = 0 then bars a else slice_from (bars a) (- k))"

definition get_closes :: "aggregator \<Rightarrow> int option \<Rightarrow> real list" where
  "get_closes a n = (let closes = map b_close (bars a)
                     in case n of None \<Rightarrow> closes
                        | Some k \<Rightarrow> if k = 0 then closes else slice_from closes (- k))"






section \<open>Configuration (config.py)\<close>

text \<open>
  The module's constants, grouped by the component that reads them. A constant is a field,
  so that a theorem holds for every setting; \<open>default_config\<close> below has the values of
  config.py. \<open>MAX_TRADES_PER_PAIR_PER_HOUR\<close> is optional because the risk manager tests
  \<^verbatim>\<open>hasattr(config, "MAX_TRADES_PER_PAIR_PER_HOUR")\<close>.
\<close>

record risk_config =
  MAX_CONCURRENT_TRADES :: int
  MAX_CONSECUTIVE_LOSSES :: int
  MAX_DAILY_LOSS :: real
  COOL_DOWN_AFTER_EXIT_SEC :: real
  COOL_DOWN_AFTER_LOSS_SEC :: real
  MAX_TRADES_PER_PAIR_PER_HOUR :: "int option"

record setup_config =
  MIN_CANDLES_FOR_ENTRY :: int
  LOOKBACK_CANDLES :: int
  MIN_BREAKOUT_STRENGTH_BPS :: real
  BREAKOUT_DEAD_ZONE_BPS :: real
  ATR_PERIOD :: int
  MIN_ATR_BPS :: real
  REQUIRE_EMA_CROSS :: bool
  EMA_FAST :: int
  EMA_SLOW :: int
  FEE_TAKER_BPS :: real
  MAX_SLIPPAGE_BPS :: real
  TP_ATR_MULTIPLIER :: real
  SL_ATR_MULTIPLIER :: real
  MIN_TP_BPS :: real
  MAX_TP_BPS :: real
  MIN_SL_BPS :: real
  MAX_SL_BPS :: real
  MIN_RISK_REWARD_RATIO :: real

record exec_config =
  MIN_CONFIRMATIONS_NEEDED :: int
  ARMED_CANDIDATE_TIMEOUT_SEC :: real
  ZSCORE_WINDOW :: int
  ZSCORE_THRESHOLD :: real
  VOLUME_AVG_WINDOW :: int
  VOLUME_SPIKE_WINDOW :: int
  VOLUME_SPIKE_MULTIPLIER :: real
  MIN_IMBALANCE :: real
  MAX_IMBALANCE :: real
  MIN_BID_DEPTH_USDT :: real
  MAX_SPREAD_PCT :: real
  BASE_ORDER_NOTIONAL_USDT :: real

record config =
  BAR_SAMPLING_SEC :: real
  BAR_HISTORY_MAX :: nat
  risk_cfg :: risk_config
  setup_cfg :: setup_config
  exec_cfg :: exec_config

definition default_risk_config :: risk_config where
  "default_risk_config =
     \<lparr>MAX_CONCURRENT_TRADES = 1, MAX_CONSECUTIVE_LOSSES = 5, MAX_DAILY_LOSS = 30,
      COOL_DOWN_AFTER_EXIT_SEC = 2, COOL_DOWN_AFTER_LOSS_SEC = 8,
      MAX_TRADES_PER_PAIR_PER_HOUR = Some 8\<rparr>"

definition default_setup_config :: setup_config where
  "default_setup_config =
     \<lparr>MIN_CANDLES_FOR_ENTRY = 12, LOOKBACK_CANDLES = 8, MIN_BREAKOUT_STRENGTH_BPS = 3/2,
      BREAKOUT_DEAD_ZONE_BPS = 0, ATR_PERIOD = 14, MIN_ATR_BPS = 5, REQUIRE_EMA_CROSS = False,
      EMA_FAST = 5, EMA_SLOW = 13, FEE_TAKER_BPS = 10, MAX_SLIPPAGE_BPS = 5,
      TP_ATR_MULTIPLIER = 4, SL_ATR_MULTIPLIER = 2, MIN_TP_BPS = 20, MAX_TP_BPS = 80,
      MIN_SL_BPS = 15, MAX_SL_BPS = 60, MIN_RISK_REWARD_RATIO = 1/5\<rparr>"

definition default_exec_config :: exec_config where
  "default_exec_config =
     \<lparr>MIN_CONFIRMATIONS_NEEDED = 1, ARMED_CANDIDATE_TIMEOUT_SEC = 20, ZSCORE_WINDOW = 15,
      ZSCORE_THRESHOLD = 1/10, VOLUME_AVG_WINDOW = 30, VOLUME_SPIKE_WINDOW = 3,
      VOLUME_SPIKE_MULTIPLIER = 11/10, MIN_IMBALANCE = 21/20, MAX_IMBALANCE = 20,
      MIN_BID_DEPTH_USDT = 400, MAX_SPREAD_PCT = 35/100, BASE_ORDER_NOTIONAL_USDT = 20\<rparr>"

definition default_config :: config where
  "default_config =
     \<lparr>BAR_SAMPLING_SEC = 1, BAR_HISTORY_MAX = 400, risk_cfg = default_risk_config,
      setup_cfg = default_setup_config, exec_cfg = default_exec_config\<rparr>"

section \<open>RiskManager (utils.py)\<close>

text \<open>\<^verbatim>\<open>str\<close> of an integer, as the f-strings of the reasons print it.\<close>

fun show_nat :: "nat \<Rightarrow> string" where
  "show_nat n = (if n < 10 then [''0123456789'' ! n]
                 else show_nat (n div 10) @ [''0123456789'' ! (n mod 10)])"

declare show_nat.simps [simp del]

definition show_int :: "int \<Rightarrow> string" where
  "show_int i = (if i < 0 then ''-'' @ show_nat (nat (- i)) else show_nat (nat i))"

text \<open>
  \<open>pair_trade_times\<close> is a \<^verbatim>\<open>defaultdict(list)\<close>: every key has a list, empty until a
  trade is recorded, so it is a total function.
\<close>

record risk_state =
  daily_pnl :: real
  consecutive_losses :: int
  last_trade_time :: real
  last_loss_time :: real
  pair_trade_times :: "string \<Rightarrow> real list"

definition new_risk_manager :: risk_state where
  "new_risk_manager =
     \<lparr>daily_pnl = 0, consecutive_losses = 0, last_trade_time = 0, last_loss_time = 0,
      pair_trade_times = (\<lambda>_. [])\<rparr>"

text \<open>Truthiness of the \<^verbatim>\<open>inst_id\<close> argument: \<^verbatim>\<open>None\<close> and the empty string are falsy.\<close>

definition truthy_inst :: "string option \<Rightarrow> bool" where
  "truthy_inst inst_id = (case inst_id of None \<Rightarrow> False | Some i \<Rightarrow> i \<noteq> [])"

text \<open>
  \<^verbatim>\<open>can_open_position(inst_id, open_positions)\<close> with the clock reading \<open>now\<close> taken on
  entry. The result is the pair the source returns, and the state, whose trade window for
  the instrument the last check rewrites.
\<close>

definition can_open_position ::
  "risk_config \<Rightarrow> risk_state \<Rightarrow> string option \<Rightarrow> int \<Rightarrow> real \<Rightarrow> (bool \<times> string) \<times> risk_state" where
  "can_open_position rc s inst_id open_positions now =
     (if now - last_trade_time s < COOL_DOWN_AFTER_EXIT_SEC rc then
        ((False, ''Cooldown ('' @
            show_int (py_int (COOL_DOWN_AFTER_EXIT_SEC rc - (now - last_trade_time s))) @ ''s)''), s)
      else if consecutive_losses s > 0 \<and> now - last_loss_time s < COOL_DOWN_AFTER_LOSS_SEC rc then
        ((False, ''Loss cooldown ('' @
            show_int (py_int (COOL_DOWN_AFTER_LOSS_SEC rc - (now - last_loss_time s))) @ ''s)''), s)
      else if daily_pnl s \<le> - MAX_DAILY_LOSS rc then ((False, ''Daily loss limit hit''), s)
      else if consecutive_losses s \<ge> MAX_CONSECUTIVE_LOSSES rc then
        ((False, ''Max consecutive losses ('' @ show_int (consecutive_losses s) @ '')''), s)
      else if open_positions \<ge> MAX_CONCURRENT_TRADES rc then
        ((False, ''Max concurrent trades ('' @ show_int open_positions @ '')''), s)
      else
        (case (inst_id, MAX_TRADES_PER_PAIR_PER_HOUR rc) of
           (Some i, Some m) \<Rightarrow>
             if i \<noteq> [] then
               (let recent = filter (\<lambda>t. now - t < 3600) (pair_trade_times s i);
                    s' = s\<lparr>pair_trade_times := (pair_trade_times s)(i := recent)\<rparr>
                in if int (length recent) \<ge> m then ((False, i @ '' rate limit''), s')
                   else ((True, ''''), s'))
             else ((True, ''''), s)
         | _ \<Rightarrow> ((True, ''''), s)))"

text \<open>
  \<^verbatim>\<open>record_trade(inst_id, pnl)\<close>. The source reads the clock once for each timestamp it
  stores: \<open>t_trade\<close> for \<^verbatim>\<open>last_trade_time\<close>, \<open>t_window\<close> for the instrument's window and
  \<open>t_loss\<close> for \<^verbatim>\<open>last_loss_time\<close>.
\<close>

definition record_trade ::
  "risk_state \<Rightarrow> string \<Rightarrow> real \<Rightarrow> real \<Rightarrow> real \<Rightarrow> real \<Rightarrow> risk_state" where
  "record_trade s inst_id pnl t_trade t_window t_loss =
     (let s1 = s\<lparr>daily_pnl := daily_pnl s + pnl\<rparr>;
          s2 = s1\<lparr>last_trade_time := t_trade\<rparr>;
          s3 = s2\<lparr>pair_trade_times :=
                    (pair_trade_times s2)(inst_id := pair_trade_times s2 inst_id @ [t_window])\<rparr>
      in if pnl < 0
         then s3\<lparr>consecutive_losses := consecutive_losses s3 + 1, last_loss_time := t_loss\<rparr>
         else s3\<lparr>consecutive_losses := 0\<rparr>)"

text \<open>The checks of \<^verbatim>\<open>can_open_position\<close> other than the post-exit cooldown, none tripped.\<close>

definition no_other_limit_tripped ::
  "risk_config \<Rightarrow> risk_state \<Rightarrow> string option \<Rightarrow> int \<Rightarrow> real \<Rightarrow> bool" where
  "no_other_limit_tripped rc s inst_id open_positions now \<longleftrightarrow>
     \<not> (consecutive_losses s > 0 \<and> now - last_loss_time s < COOL_DOWN_AFTER_LOSS_SEC rc)
     \<and> \<not> daily_pnl s \<le> - MAX_DAILY_LOSS rc
     \<and> \<not> consecutive_losses s \<ge> MAX_CONSECUTIVE_LOSSES rc
     \<and> \<not> open_positions \<ge> MAX_CONCURRENT_TRADES rc
     \<and> (case (inst_id, MAX_TRADES_PER_PAIR_PER_HOUR rc) of
          (Some i, Some m) \<Rightarrow>
            i \<noteq> [] \<longrightarrow> \<not> int (length (filter (\<lambda>t. now - t < 3600) (pair_trade_times s i))) \<ge> m
        | _ \<Rightarrow> True)"

text \<open>Whether a call gets as far as the hourly rate check, the only check that writes.\<close>

definition reaches_rate_check ::
  "risk_config \<Rightarrow> risk_state \<Rightarrow> string option \<Rightarrow> int \<Rightarrow> real \<Rightarrow> bool" where
  "reaches_rate_check rc s inst_id open_positions now \<longleftrightarrow>
     \<not> now - last_trade_time s < COOL_DOWN_AFTER_EXIT_SEC rc
     \<and> \<not> (consecutive_losses s > 0 \<and> now - last_loss_time s < COOL_DOWN_AFTER_LOSS_SEC rc)
     \<and> \<not> daily_pnl s \<le> - MAX_DAILY_LOSS rc
     \<and> \<not> consecutive_losses s \<ge> MAX_CONSECUTIVE_LOSSES rc
     \<and> \<not> open_positions \<ge> MAX_CONCURRENT_TRADES rc
     \<and> truthy_inst inst_id \<and> MAX_TRADES_PER_PAIR_PER_HOUR rc \<noteq> None"

section \<open>MomentumSniper: state (strategy.py)\<close>

text \<open>
  A top-of-book level is the list of numeric fields the exchange sends for it (price,
  quantity, ...); the wire strings are represented by the numbers they denote. The
  per-instrument snapshot \<^verbatim>\<open>pairs_data[inst_id]\<close> is a dict whose keys may be absent.
  A candidate and a position are dicts too; the position has the keys written by
  \<^verbatim>\<open>enter_position\<close>, by the entry fill and by \<^verbatim>\<open>force_close_position\<close>. Rejection
  telemetry (\<^verbatim>\<open>_log_rejection\<close>, the display counters, the log files) is left out: a
  rejection shows in the outcome a scan returns.
\<close>

type_synonym level = "real list"

record pair_data =
  last_armed_high :: "real option"
  best_bid :: "real option"
  best_ask :: "real option"
  mid :: "real option"
  order_book :: "(level list \<times> level list) option"

definition empty_pair_data :: pair_data where
  "empty_pair_data =
     \<lparr>last_armed_high = None, best_bid = None, best_ask = None, mid = None, order_book = None\<rparr>"

record candidate =
  c_entry_price :: real
  c_tp :: real
  c_sl :: real
  c_tp_bps :: real
  c_sl_bps :: real
  c_atr :: real
  c_breakout_strength :: real
  c_rr :: real
  c_time :: real
  c_imbalance :: "real option"

datatype pos_state = PENDING_ENTRY | OPEN | CLOSING | CLOSING_FAILED

record position =
  p_inst_id :: string
  p_state :: pos_state
  p_entry_order_id :: "string option"
  p_clOrdId :: string
  p_attach_algo_id :: "string option"
  p_tp_price :: real
  p_sl_price :: real
  p_tp_bps :: real
  p_sl_bps :: real
  p_atr :: real
  p_rr :: real
  p_time :: real
  p_entry_price :: "real option"
  p_entry_size :: "real option"
  p_entry_fee :: "real option"
  p_peak_price :: "real option"
  p_exit_order_id :: "string option"
  p_exit_type :: "string option"

text \<open>
  The engine's state. \<open>bar_aggregators\<close> is a \<^verbatim>\<open>defaultdict\<close> whose factory builds an
  empty aggregator, which is falsy (\<^verbatim>\<open>__len__\<close> is 0) like a missing entry; it is a total
  function. \<open>usdt_balance\<close> is the balance the order manager caches.
\<close>

record sniper =
  pairs_data :: "string \<rightharpoonup> pair_data"
  active_position :: "position option"
  armed_candidates :: "string \<rightharpoonup> candidate"
  bar_aggregators :: "string \<Rightarrow> aggregator"
  risk_manager :: risk_state
  usdt_balance :: real

definition new_sniper :: "config \<Rightarrow> sniper" where
  "new_sniper cfg =
     \<lparr>pairs_data = Map.empty, active_position = None, armed_candidates = Map.empty,
      bar_aggregators = (\<lambda>_. new_aggregator (BAR_SAMPLING_SEC cfg) (BAR_HISTORY_MAX cfg)),
      risk_manager = new_risk_manager, usdt_balance = 0\<rparr>"

section \<open>Indicators (strategy.py)\<close>

text \<open>\<^verbatim>\<open>compute_ema(values, period)\<close>: \<^verbatim>\<open>None\<close> when the window is short.\<close>

definition compute_ema :: "real list \<Rightarrow> int \<Rightarrow> py_error + real option" where
  "compute_ema values period =
     (if int (length values) < period then Inr None
      else case py_div 2 (real_of_int period + 1) of
             Inl e \<Rightarrow> Inl e
           | Inr k \<Rightarrow>
               (case values of
                  [] \<Rightarrow> Inl IndexError
                | v0 # rest \<Rightarrow> Inr (Some (foldl (\<lambda>ema v. v * k + ema * (1 - k)) v0 rest))))"

text \<open>
  \<^verbatim>\<open>compute_zscore(returns)\<close>. Its body is
  \<^verbatim>\<open>mean, var = sum(arr) / len(arr), sum((x - mean) ** 2 for x in arr) / len(arr)\<close>:
  the right-hand tuple is evaluated in full before either name is assigned, and the
  generator reads \<^verbatim>\<open>mean\<close> from the enclosing function once per element. The local
  names bound so far are therefore part of the model, and reading an unbound one raises
  \<^verbatim>\<open>NameError\<close>. The bare \<^verbatim>\<open>except\<close> turns every exception into the result 0.0.
\<close>

type_synonym locals = "string \<rightharpoonup> real"

definition load_name :: "locals \<Rightarrow> string \<Rightarrow> py_error + real" where
  "load_name env x = (case env x of None \<Rightarrow> Inl NameError | Some v \<Rightarrow> Inr v)"

fun sum_sq_dev :: "locals \<Rightarrow> real list \<Rightarrow> py_error + real" where
  "sum_sq_dev env [] = Inr 0"
| "sum_sq_dev env (x # xs) =
     (case load_name env ''mean'' of
        Inl e \<Rightarrow> Inl e
      | Inr m \<Rightarrow> (case sum_sq_dev env xs of
                    Inl e \<Rightarrow> Inl e
                  | Inr r \<Rightarrow> Inr ((x - m)\<^sup>2 + r)))"

definition compute_zscore_try :: "real list \<Rightarrow> py_error + real" where
  "compute_zscore_try arr =
     (let env = (Map.empty :: locals)
      in case py_div (sum_list arr) (real (length arr)) of
           Inl e \<Rightarrow> Inl e
         | Inr rhs_mean \<Rightarrow>
             (case sum_sq_dev env arr of
                Inl e \<Rightarrow> Inl e
              | Inr ss \<Rightarrow>
                  (case py_div ss (real (length arr)) of
                     Inl e \<Rightarrow> Inl e
                   | Inr rhs_var \<Rightarrow>
                       (let env' = env(''mean'' \<mapsto> rhs_mean, ''var'' \<mapsto> rhs_var);
                            std = (if rhs_var > 0 then sqrt rhs_var else 1 / 10 ^ 9)
                        in case arr of
                             [] \<Rightarrow> Inl IndexError
                           | _ \<Rightarrow> py_div (last arr - rhs_mean) std))))"

definition compute_zscore :: "real list \<Rightarrow> real" where
  "compute_zscore returns =
     (if length returns < 5 then 0
      else case compute_zscore_try returns of Inl _ \<Rightarrow> 0 | Inr z \<Rightarrow> z)"

text \<open>The z-score in the words of the specification: (last - mean) / population standard
  deviation, with the epsilon 1e-9 in place of a zero deviation.\<close>

definition zscore_spec :: "real list \<Rightarrow> real" where
  "zscore_spec returns =
     (let n = real (length returns);
          mean = sum_list returns / n;
          var = sum_list (map (\<lambda>x. (x - mean)\<^sup>2) returns) / n;
          std = (if var > 0 then sqrt var else 1 / 10 ^ 9)
      in (last returns - mean) / std)"

section \<open>Setup scan (strategy.py, check\_setup\_conditions)\<close>

datatype setup_outcome = Skip | Rejected string | Armed | SetupError py_error

datatype 'a scan = Return setup_outcome | Continue 'a

fun max_list :: "real list \<Rightarrow> py_error + real" where
  "max_list [] = Inl ValueError"
| "max_list (x # xs) = Inr (foldl max x xs)"

text \<open>True ranges over consecutive bars, \<^verbatim>\<open>zip(bars, bars[1:])\<close>.\<close>

definition true_ranges :: "bar list \<Rightarrow> real list" where
  "true_ranges bs =
     map (\<lambda>(prev, curr). max (max (b_high curr - b_low curr) \<bar>b_high curr - b_close prev\<bar>)
                              \<bar>b_low curr - b_close prev\<bar>)
         (zip bs (tl bs))"

text \<open>Lines 113 to 116: the optional trend filter. A missing or zero EMA is falsy.\<close>

definition ema_filter :: "setup_config \<Rightarrow> real list \<Rightarrow> unit scan" where
  "ema_filter sc closes =
     (if REQUIRE_EMA_CROSS sc
      then (case compute_ema closes (EMA_FAST sc) of
              Inl e \<Rightarrow> Return (SetupError e)
            | Inr ema_fast \<Rightarrow>
                (case compute_ema closes (EMA_SLOW sc) of
                   Inl e \<Rightarrow> Return (SetupError e)
                 | Inr ema_slow \<Rightarrow>
                     (case (ema_fast, ema_slow) of
                        (Some f, Some sl) \<Rightarrow>
                          if f = 0 \<or> sl = 0 then Return Skip
                          else if f \<le> sl then Return Skip
                          else Continue ()
                      | _ \<Rightarrow> Return Skip)))
      else Continue ())"

text \<open>Lines 118 to 140: recent high, the optional dead zone and the breakout test. On
  success: current price, recent high and breakout strength.\<close>

definition breakout_test ::
  "setup_config \<Rightarrow> sniper \<Rightarrow> string \<Rightarrow> real list \<Rightarrow> (real \<times> real \<times> real) scan" where
  "breakout_test sc s inst_id closes =
     (let current_price = last closes;
          lookback_closes = slice_from closes (- LOOKBACK_CANDLES sc) in
      if length lookback_closes < 2 then Return Skip
      else
        case max_list (butlast lookback_closes) of
          Inl e \<Rightarrow> Return (SetupError e)
        | Inr recent_high \<Rightarrow>
            let pd = (case pairs_data s inst_id of None \<Rightarrow> empty_pair_data | Some d \<Rightarrow> d);
                last_high = (case last_armed_high pd of None \<Rightarrow> 0 | Some h \<Rightarrow> h);
                dead_zone_price = recent_high * (1 - BREAKOUT_DEAD_ZONE_BPS sc / 10000) in
            if BREAKOUT_DEAD_ZONE_BPS sc > 0 \<and> recent_high = last_high
               \<and> current_price > dead_zone_price
            then Return (Rejected ''In Dead Zone'')
            else if current_price \<le> recent_high then Return (Rejected ''No Breakout'')
            else
              case dec_div (current_price - recent_high) recent_high of
                Inl e \<Rightarrow> Return (SetupError e)
              | Inr q \<Rightarrow>
                  let breakout_bps = q * 10000 in
                  if breakout_bps < MIN_BREAKOUT_STRENGTH_BPS sc
                  then Return (Rejected ''Weak Breakout'')
                  else Continue (current_price, recent_high, breakout_bps))"

text \<open>Lines 105 to 140: the early outs, then the two tests above.\<close>

definition setup_breakout ::
  "setup_config \<Rightarrow> sniper \<Rightarrow> string \<Rightarrow> (real \<times> real \<times> real) scan" where
  "setup_breakout sc s inst_id =
     (let aggregator = bar_aggregators s inst_id in
      if bars aggregator = [] \<or> int (length (bars aggregator)) < MIN_CANDLES_FOR_ENTRY sc
      then Return Skip
      else if armed_candidates s inst_id \<noteq> None then Return Skip
      else
        let closes = get_closes aggregator None in
        if int (length closes) < MIN_CANDLES_FOR_ENTRY sc then Return Skip
        else
          case ema_filter sc closes of
            Return r \<Rightarrow> Return r
          | Continue _ \<Rightarrow> breakout_test sc s inst_id closes)"

text \<open>Lines 146 to 178: ATR, raw targets in bps, the cost and risk-reward tests, the clamps
  and the candidate; \<open>now\<close> is the clock reading stored as the arm time.\<close>

definition setup_targets ::
  "setup_config \<Rightarrow> aggregator \<Rightarrow> real \<Rightarrow> real \<Rightarrow> real \<Rightarrow> candidate scan" where
  "setup_targets sc aggregator current_price breakout_bps now =
     (let bs = get_bars aggregator (Some (ATR_PERIOD sc + 1)) in
      if int (length bs) < ATR_PERIOD sc + 1 then Return Skip
      else
        let trs = true_ranges bs in
        if trs = [] then Return Skip
        else
          let atr = sum_list trs / real (length trs) in
          case dec_div atr current_price of
            Inl e \<Rightarrow> Return (SetupError e)
          | Inr q \<Rightarrow>
              let atr_bps = q * 10000 in
              if atr_bps < MIN_ATR_BPS sc then Return (Rejected ''Low ATR'')
              else
                let tp_dist = atr * TP_ATR_MULTIPLIER sc;
                    sl_dist = atr * SL_ATR_MULTIPLIER sc;
                    raw_tp_bps = tp_dist / current_price * 10000;
                    raw_sl_bps = sl_dist / current_price * 10000;
                    expected_cost_bps = FEE_TAKER_BPS sc + MAX_SLIPPAGE_BPS sc in
                if raw_tp_bps - expected_cost_bps \<le> 0 \<or> raw_sl_bps \<le> 0 then Return Skip
                else
                  case py_div (raw_tp_bps - expected_cost_bps) (raw_sl_bps + expected_cost_bps) of
                    Inl e \<Rightarrow> Return (SetupError e)
                  | Inr rr \<Rightarrow>
                      if rr < MIN_RISK_REWARD_RATIO sc then Return (Rejected ''Low R:R'')
                      else
                        let tp_bps_adj = max (MIN_TP_BPS sc) (min (MAX_TP_BPS sc) raw_tp_bps);
                            sl_bps_adj = max (MIN_SL_BPS sc) (min (MAX_SL_BPS sc) raw_sl_bps) in
                        Continue
                          \<lparr>c_entry_price = current_price,
                           c_tp = current_price * (1 + tp_bps_adj / 10000),
                           c_sl = current_price * (1 - sl_bps_adj / 10000),
                           c_tp_bps = tp_bps_adj, c_sl_bps = sl_bps_adj, c_atr = atr,
                           c_breakout_strength = breakout_bps, c_rr = rr, c_time = now,
                           c_imbalance = None\<rparr>)"

text \<open>The handler of the scan's \<^verbatim>\<open>except Exception\<close>: it drops \<^verbatim>\<open>last_armed_high\<close>,
  then logs.\<close>

definition pop_last_armed_high :: "sniper \<Rightarrow> string \<Rightarrow> sniper" where
  "pop_last_armed_high s inst_id =
     (case pairs_data s inst_id of
        None \<Rightarrow> s
      | Some d \<Rightarrow> s\<lparr>pairs_data := (pairs_data s)(inst_id \<mapsto> d\<lparr>last_armed_high := None\<rparr>)\<rparr>)"

definition setup_return :: "setup_outcome \<Rightarrow> sniper \<Rightarrow> string \<Rightarrow> setup_outcome \<times> sniper" where
  "setup_return r s inst_id =
     (case r of SetupError e \<Rightarrow> (r, pop_last_armed_high s inst_id) | _ \<Rightarrow> (r, s))"

definition check_setup_conditions ::
  "setup_config \<Rightarrow> sniper \<Rightarrow> string \<Rightarrow> real \<Rightarrow> setup_outcome \<times> sniper" where
  "check_setup_conditions sc s inst_id now =
     (case setup_breakout sc s inst_id of
        Return r \<Rightarrow> setup_return r s inst_id
      | Continue (current_price, recent_high, breakout_bps) \<Rightarrow>
          let s1 = (if BREAKOUT_DEAD_ZONE_BPS sc > 0
                    then s\<lparr>pairs_data := (pairs_data s)(inst_id \<mapsto>
                             (case pairs_data s inst_id of None \<Rightarrow> empty_pair_data | Some d \<Rightarrow> d)
                               \<lparr>last_armed_high := Some recent_high\<rparr>)\<rparr>
                    else s) in
          case setup_targets sc (bar_aggregators s inst_id) current_price breakout_bps now of
            Return r \<Rightarrow> setup_return r s1 inst_id
          | Continue cand \<Rightarrow>
              (Armed, s1\<lparr>armed_candidates := (armed_candidates s1)(inst_id \<mapsto> cand)\<rparr>))"

text \<open>An instrument with fifteen closed one-second bars: fourteen flat ones closing at 99
  with range 1, then a bar that closes at 100.\<close>

definition flat_bar :: "real \<Rightarrow> bar" where
  "flat_bar t = \<lparr>b_start = t, b_open = 99, b_high = 199/2, b_low = 197/2, b_close = 99,
                 b_volume = 0\<rparr>"

definition breakout_example :: sniper where
  "breakout_example =
     (new_sniper default_config)
       \<lparr>bar_aggregators := (bar_aggregators (new_sniper default_config))
          (''BTC-USDT'' := (new_aggregator 1 400)
             \<lparr>bars := map flat_bar [1, 2, 3, 4, 5, 6, 7, 8, 9, 10, 11, 12, 13, 14] @
                       [\<lparr>b_start = 15, b_open = 99, b_high = 100, b_low = 99, b_close = 100,
                         b_volume = 0\<rparr>]\<rparr>)\<rparr>"

text \<open>A distance of \<open>atr * multiplier\<close> at a price, in basis points, as lines 158 and 159
  compute the raw targets.\<close>

definition raw_bps :: "real \<Rightarrow> real \<Rightarrow> real \<Rightarrow> real" where
  "raw_bps atr multiplier price = atr * multiplier / price * 10000"

section \<open>Market-data handlers (strategy.py)\<close>

text \<open>
  A top-of-book message is a dict whose \<^verbatim>\<open>bids\<close> and \<^verbatim>\<open>asks\<close> may be absent. A trade
  print carries \<^verbatim>\<open>px\<close> and \<^verbatim>\<open>sz\<close>; \<open>None\<close> stands for a field that is missing or does
  not parse, on which \<^verbatim>\<open>float(tr["px"])\<close> raises. Handlers schedule scans with
  \<^verbatim>\<open>asyncio.create_task\<close>; the scheduled tasks are part of the result. The message
  counters of \<^verbatim>\<open>diagnostics\<close> are telemetry and are left out.
\<close>

record bbo =
  bbo_bids :: "level list option"
  bbo_asks :: "level list option"

record trade =
  px :: "real option"
  sz :: "real option"

datatype spawned = Spawn_setup string | Spawn_execution string

text \<open>\<^verbatim>\<open>not bids\<close>: the key is absent (or \<^verbatim>\<open>None\<close>) or the list is empty; \<^verbatim>\<open>not bids[0]\<close>:
  the first level is an empty list.\<close>

definition falsy_side :: "level list option \<Rightarrow> bool" where
  "falsy_side side = (case side of None \<Rightarrow> True | Some ls \<Rightarrow> ls = [])"

definition caught_by_bbo_handler :: "py_error \<Rightarrow> bool" where
  "caught_by_bbo_handler e \<longleftrightarrow> e \<in> {KeyError, IndexError, ValueError, TypeError}"

text \<open>
  \<^verbatim>\<open>handle_bbo_data(inst_id, bbo_data_list)\<close>; \<open>server_now\<close> is the clock reading of the
  \<^verbatim>\<open>add_tick\<close> call. The first component is an exception that leaves the handler.
\<close>

definition handle_bbo_data ::
  "sniper \<Rightarrow> string \<Rightarrow> bbo list \<Rightarrow> real \<Rightarrow> py_error option \<times> sniper \<times> spawned list" where
  "handle_bbo_data s inst_id bbo_data_list server_now =
     (case bbo_data_list of
        [] \<Rightarrow> (None, s, [])
      | bbo_data # _ \<Rightarrow>
          if falsy_side (bbo_bids bbo_data) \<or> falsy_side (bbo_asks bbo_data) then (None, s, [])
          else
            (case (bbo_bids bbo_data, bbo_asks bbo_data) of
               (Some (bid0 # bids_rest), Some (ask0 # asks_rest)) \<Rightarrow>
                 (case (bid0, ask0) of
                    (best_bid_px # _, best_ask_px # _) \<Rightarrow>
                      let pd = (case pairs_data s inst_id of
                                  None \<Rightarrow> empty_pair_data | Some d \<Rightarrow> d);
                          pd' = pd\<lparr>best_bid := Some best_bid_px, best_ask := Some best_ask_px,
                                    mid := Some ((best_bid_px + best_ask_px) / 2),
                                    order_book := Some (bid0 # bids_rest, ask0 # asks_rest)\<rparr>;
                          s1 = s\<lparr>pairs_data := (pairs_data s)(inst_id \<mapsto> pd')\<rparr>;
                          mid_price = (best_bid_px + best_ask_px) / 2
                      in if mid_price > 0
                         then (case add_tick server_now mid_price 0 (bar_aggregators s1 inst_id) of
                                 Inl e \<Rightarrow>
                                   if caught_by_bbo_handler e then (None, s1, [])
                                   else (Some e, s1, [])
                               | Inr a' \<Rightarrow>
                                   (None,
                                    s1\<lparr>bar_aggregators := (bar_aggregators s1)(inst_id := a')\<rparr>,
                                    [Spawn_setup inst_id, Spawn_execution inst_id]))
                         else (None, s1, [])
                  | _ \<Rightarrow> (None, s, []))
             | _ \<Rightarrow> (None, s, [])))"

text \<open>One iteration of the loop of \<^verbatim>\<open>handle_trade_data\<close>: the bare \<^verbatim>\<open>except\<close> skips the
  trade on any exception, of \<^verbatim>\<open>add_tick\<close> too.\<close>

definition handle_trade :: "sniper \<Rightarrow> string \<Rightarrow> trade \<Rightarrow> real \<Rightarrow> sniper" where
  "handle_trade s inst_id tr server_now =
     (case px tr of
        None \<Rightarrow> s
      | Some price \<Rightarrow>
          if price > 0
          then (case sz tr of
                  None \<Rightarrow> s
                | Some vol \<Rightarrow>
                    (case add_tick server_now price vol (bar_aggregators s inst_id) of
                       Inl e \<Rightarrow> s
                     | Inr a' \<Rightarrow> s\<lparr>bar_aggregators := (bar_aggregators s)(inst_id := a')\<rparr>))
          else s)"

text \<open>\<^verbatim>\<open>handle_trade_data(inst_id, trades)\<close>, each trade with the clock reading of its
  \<^verbatim>\<open>add_tick\<close> call.\<close>

fun handle_trade_data :: "sniper \<Rightarrow> string \<Rightarrow> (trade \<times> real) list \<Rightarrow> sniper" where
  "handle_trade_data s inst_id [] = s"
| "handle_trade_data s inst_id ((tr, server_now) # trades) =
     handle_trade_data (handle_trade s inst_id tr server_now) inst_id trades"

text \<open>The mid price a top-of-book message yields, when both first levels carry a price.\<close>

definition bbo_mid :: "bbo \<Rightarrow> real option" where
  "bbo_mid b =
     (case (bbo_bids b, bbo_asks b) of
        (Some ((bp # _) # _), Some ((ap # _) # _)) \<Rightarrow> Some ((bp + ap) / 2)
      | _ \<Rightarrow> None)"

section \<open>Confirmation scan (strategy.py, check\_execution\_conditions)\<close>

text \<open>The log-returns of line 212: a step is kept when the earlier close is positive, and
  \<^verbatim>\<open>math.log\<close> raises \<^verbatim>\<open>ValueError\<close> on a ratio that is not positive.\<close>

fun log_returns :: "real list \<Rightarrow> py_error + real list" where
  "log_returns (a # b # rest) =
     (if a > 0
      then (if b / a \<le> 0 then Inl ValueError
            else case log_returns (b # rest) of
                   Inl e \<Rightarrow> Inl e
                 | Inr rs \<Rightarrow> Inr (ln (b / a) # rs))
      else log_returns (b # rest))"
| "log_returns _ = Inr []"

text \<open>Lines 209 to 217: does the momentum z-score confirm?\<close>

definition zscore_confirms :: "exec_config \<Rightarrow> aggregator \<Rightarrow> py_error + bool" where
  "zscore_confirms ec aggregator =
     (if bars aggregator \<noteq> [] \<and> int (length (bars aggregator)) \<ge> ZSCORE_WINDOW ec
      then
        (let closes = get_closes aggregator (Some (ZSCORE_WINDOW ec)) in
         if length closes > 1
         then (case log_returns closes of
                 Inl e \<Rightarrow> Inl e
               | Inr rets \<Rightarrow>
                   if rets \<noteq> []
                   then Inr (\<bar>compute_zscore rets\<bar> \<ge> ZSCORE_THRESHOLD ec)
                   else Inr False)
         else Inr False)
      else Inr False)"

text \<open>Lines 219 to 230: does the volume spike confirm?\<close>

definition volume_confirms :: "exec_config \<Rightarrow> aggregator \<Rightarrow> py_error + bool" where
  "volume_confirms ec aggregator =
     (if bars aggregator \<noteq> [] \<and> int (length (bars aggregator)) \<ge> VOLUME_AVG_WINDOW ec
      then
        (let volumes = map b_volume (get_bars aggregator (Some (VOLUME_AVG_WINDOW ec))) in
         if int (length volumes) \<ge> VOLUME_AVG_WINDOW ec
         then
           (let recent_vol = sum_list (slice_from volumes (- VOLUME_SPIKE_WINDOW ec));
                base_vols = slice_to volumes (- VOLUME_SPIKE_WINDOW ec) in
            if base_vols \<noteq> [] \<and> sum_list base_vols > 0
            then
              (let avg_base_vol = sum_list base_vols / real (length base_vols) in
               if avg_base_vol > 0
               then (case py_div recent_vol
                            (avg_base_vol * real_of_int (VOLUME_SPIKE_WINDOW ec)) of
                       Inl e \<Rightarrow> Inl e
                     | Inr mult \<Rightarrow> Inr (mult \<ge> VOLUME_SPIKE_MULTIPLIER ec))
               else Inr False)
            else Inr False)
         else Inr False)
      else Inr False)"

text \<open>Notional of one side of the book, \<^verbatim>\<open>sum(Decimal(b[1]) * Decimal(b[0]) for b in bids)\<close>;
  a level with fewer than two fields raises \<^verbatim>\<open>IndexError\<close>.\<close>

fun book_notional :: "level list \<Rightarrow> py_error + real" where
  "book_notional [] = Inr 0"
| "book_notional (l # ls) =
     (case l of
        p # q # _ \<Rightarrow> (case book_notional ls of Inl e \<Rightarrow> Inl e | Inr r \<Rightarrow> Inr (q * p + r))
      | _ \<Rightarrow> Inl IndexError)"

text \<open>Lines 232 to 240: does the book imbalance confirm, and the local \<^verbatim>\<open>imb\<close> when it
  has been assigned.\<close>

definition imbalance_confirms ::
  "exec_config \<Rightarrow> level list \<times> level list \<Rightarrow> py_error + (bool \<times> real option)" where
  "imbalance_confirms ec book =
     (case book of
        (bids, asks) \<Rightarrow>
          if bids \<noteq> [] \<and> asks \<noteq> []
          then (case book_notional bids of
                  Inl e \<Rightarrow> Inl e
                | Inr bid_vol \<Rightarrow>
                    (case book_notional asks of
                       Inl e \<Rightarrow> Inl e
                     | Inr ask_vol \<Rightarrow>
                         if ask_vol > 0 \<and> bid_vol \<ge> MIN_BID_DEPTH_USDT ec
                         then (let imb = bid_vol / ask_vol in
                               Inr (MIN_IMBALANCE ec \<le> imb \<and> imb \<le> MAX_IMBALANCE ec, Some imb))
                         else Inr (False, None)))
          else Inr (False, None))"

text \<open>Lines 202 to 244 under the lock, after the risk check: the spread test and the count
  of confirmations. The result is a rejection reason, or the local \<^verbatim>\<open>imb\<close>.\<close>

definition confirmations ::
  "exec_config \<Rightarrow> sniper \<Rightarrow> string \<Rightarrow> py_error + (string + real option)" where
  "confirmations ec s inst_id =
     (case pairs_data s inst_id of
        None \<Rightarrow> Inl KeyError
      | Some pd \<Rightarrow>
          (case (best_ask pd, best_bid pd, order_book pd) of
             (Some ask, Some bid, Some book) \<Rightarrow>
               (case dec_div (ask - bid) ask of
                  Inl e \<Rightarrow> Inl e
                | Inr q \<Rightarrow>
                    if q * 100 > MAX_SPREAD_PCT ec then Inr (Inl ''Wide Spread'')
                    else
                      (case zscore_confirms ec (bar_aggregators s inst_id) of
                         Inl e \<Rightarrow> Inl e
                       | Inr z_ok \<Rightarrow>
                           (case volume_confirms ec (bar_aggregators s inst_id) of
                              Inl e \<Rightarrow> Inl e
                            | Inr v_ok \<Rightarrow>
                                (case imbalance_confirms ec book of
                                   Inl e \<Rightarrow> Inl e
                                 | Inr (i_ok, imb) \<Rightarrow>
                                     if int (length (filter id [z_ok, v_ok, i_ok]))
                                          < MIN_CONFIRMATIONS_NEEDED ec
                                     then Inr (Inl ''Confirmations Failed'')
                                     else Inr (Inr imb)))))
           | _ \<Rightarrow> Inl KeyError))"

datatype exec_outcome = ExSkip | ExRejected string | Promoted candidate | ExError py_error

text \<open>Lines 186 to 188, before the lock is requested.\<close>

definition exec_precheck :: "sniper \<Rightarrow> string \<Rightarrow> bool" where
  "exec_precheck s inst_id \<longleftrightarrow>
     armed_candidates s inst_id \<noteq> None
     \<and> (case pairs_data s inst_id of None \<Rightarrow> False | Some pd \<Rightarrow> order_book pd \<noteq> None)"

text \<open>
  Lines 190 to 255, the body run while the position lock is held. It contains no
  \<^verbatim>\<open>await\<close>, so under the cooperative scheduler it runs as one step. \<open>now\<close> is the clock
  reading of line 193 and \<open>now_risk\<close> the one \<^verbatim>\<open>can_open_position\<close> takes. The local
  \<^verbatim>\<open>pd\<close> is the dict object stored in \<^verbatim>\<open>pairs_data\<close>, which is only ever updated in
  place, so the body reads the current snapshot. On \<open>Promoted\<close> the entry task is created
  with the returned signal. The handler of \<^verbatim>\<open>except Exception\<close> deletes the candidate.
\<close>

definition check_execution_locked ::
  "config \<Rightarrow> sniper \<Rightarrow> string \<Rightarrow> real \<Rightarrow> real \<Rightarrow> exec_outcome \<times> sniper" where
  "check_execution_locked cfg s inst_id now now_risk =
     (if active_position s \<noteq> None then (ExSkip, s)
      else
        case armed_candidates s inst_id of
          None \<Rightarrow> (ExSkip, s)
        | Some cand \<Rightarrow>
            if now - c_time cand > ARMED_CANDIDATE_TIMEOUT_SEC (exec_cfg cfg)
            then (ExRejected ''Stale Candidate'',
                  s\<lparr>armed_candidates := (armed_candidates s)(inst_id := None)\<rparr>)
            else
              case can_open_position (risk_cfg cfg) (risk_manager s) (Some inst_id) 0 now_risk of
                ((can, reason), rs') \<Rightarrow>
                  let s1 = s\<lparr>risk_manager := rs'\<rparr> in
                  if \<not> can then (ExRejected ''Risk'', s1)
                  else
                    case confirmations (exec_cfg cfg) s1 inst_id of
                      Inl e \<Rightarrow>
                        (ExError e, s1\<lparr>armed_candidates := (armed_candidates s1)(inst_id := None)\<rparr>)
                    | Inr (Inl reason) \<Rightarrow> (ExRejected reason, s1)
                    | Inr (Inr imb) \<Rightarrow>
                        let s2 = s1\<lparr>armed_candidates := (armed_candidates s1)(inst_id := None)\<rparr>;
                            signal = cand\<lparr>c_imbalance :=
                                           Some (case imb of None \<Rightarrow> 0 | Some x \<Rightarrow> x)\<rparr>
                        in case pairs_data s1 inst_id of
                             None \<Rightarrow> (ExError KeyError, s2)
                           | Some pd \<Rightarrow>
                               (case mid pd of
                                  None \<Rightarrow> (ExError KeyError, s2)
                                | Some _ \<Rightarrow> (Promoted signal, s2)))"

section \<open>Entry (strategy.py, enter\_position)\<close>

text \<open>
  \<^verbatim>\<open>enter_position\<close> runs under the position lock and is suspended twice while holding
  it: at \<^verbatim>\<open>update_balance\<close> and at the entry submission. It is modelled by the three
  segments between its suspension points.
\<close>

text \<open>
  Modelled from the spec: \<^verbatim>\<open>OrderManager.place_order_with_tpsl\<close> is called by
  \<^verbatim>\<open>enter_position\<close> but is not defined in order\_manager.py. Its answer is an input, of
  the shape the specification gives for submit-entry-with-attached-exits and the call site
  unpacks: order id, algo id, error.
\<close>

record entry_response =
  er_ord_id :: "string option"
  er_algo_id :: "string option"
  er_error :: "string option"

text \<open>Truthiness of an optional string: \<^verbatim>\<open>None\<close> and \<^verbatim>\<open>""\<close> are falsy.\<close>

definition truthy_str :: "string option \<Rightarrow> bool" where
  "truthy_str x = (case x of None \<Rightarrow> False | Some v \<Rightarrow> v \<noteq> [])"

text \<open>Line 339, the re-check made once the lock is held: may the entry go on?\<close>

definition enter_check :: "sniper \<Rightarrow> bool" where
  "enter_check s \<longleftrightarrow> active_position s = None"

text \<open>
  Lines 341 to 347, run when \<^verbatim>\<open>update_balance\<close> returns; \<open>balance\<close> is the available
  USDT balance when the exchange reported one. The result is the order size, \<open>None\<close> for the
  early return on an insufficient balance, or the exception of the division.
\<close>

definition enter_after_balance ::
  "exec_config \<Rightarrow> sniper \<Rightarrow> candidate \<Rightarrow> real option \<Rightarrow> (py_error + real option) \<times> sniper" where
  "enter_after_balance ec s signal balance =
     (let s1 = (case balance of None \<Rightarrow> s | Some b \<Rightarrow> s\<lparr>usdt_balance := b\<rparr>) in
      if usdt_balance s1 < BASE_ORDER_NOTIONAL_USDT ec then (Inr None, s1)
      else case dec_div (BASE_ORDER_NOTIONAL_USDT ec) (c_entry_price signal) of
             Inl e \<Rightarrow> (Inl e, s1)
           | Inr size_base \<Rightarrow> (Inr (Some size_base), s1))"

text \<open>Lines 354 to 364, run when the submission returns; \<open>now\<close> is the clock reading stored
  as the position's time.\<close>

definition enter_commit ::
  "sniper \<Rightarrow> string \<Rightarrow> candidate \<Rightarrow> string \<Rightarrow> entry_response \<Rightarrow> real \<Rightarrow> sniper" where
  "enter_commit s inst_id signal entry_cl_ord_id resp now =
     (if truthy_str (er_error resp) then s
      else s\<lparr>active_position := Some
             \<lparr>p_inst_id = inst_id, p_state = PENDING_ENTRY, p_entry_order_id = er_ord_id resp,
              p_clOrdId = entry_cl_ord_id, p_attach_algo_id = er_algo_id resp,
              p_tp_price = c_tp signal, p_sl_price = c_sl signal, p_tp_bps = c_tp_bps signal,
              p_sl_bps = c_sl_bps signal, p_atr = c_atr signal, p_rr = c_rr signal,
              p_time = now, p_entry_price = None, p_entry_size = None, p_entry_fee = None,
              p_peak_price = None, p_exit_order_id = None, p_exit_type = None\<rparr>\<rparr>)"

section \<open>Order manager (order\_manager.py)\<close>

text \<open>The JSON answer of \<^verbatim>\<open>_make_request\<close>: the keys read by the callers, each possibly
  absent. It is an input: the network decides it.\<close>

record api_item =
  i_sCode :: "string option"
  i_sMsg :: "string option"
  i_ordId :: "string option"
  i_algoId :: "string option"

record api_response =
  r_code :: "string option"
  r_msg :: "string option"
  r_data :: "api_item list option"

definition empty_item :: api_item where
  "empty_item = \<lparr>i_sCode = None, i_sMsg = None, i_ordId = None, i_algoId = None\<rparr>"

text \<open>\<^verbatim>\<open>res.get("data", [{}])[0]\<close>.\<close>

definition first_item :: "api_response \<Rightarrow> py_error + api_item" where
  "first_item res =
     (case r_data res of
        None \<Rightarrow> Inr empty_item
      | Some [] \<Rightarrow> Inl IndexError
      | Some (d # _) \<Rightarrow> Inr d)"

definition or_default :: "string option \<Rightarrow> string \<Rightarrow> string option" where
  "or_default x d = (case x of None \<Rightarrow> Some d | Some v \<Rightarrow> Some v)"

text \<open>\<^verbatim>\<open>cancel_algo_order(inst_id, algo_id)\<close>: the pair it returns, or the exception.\<close>

definition cancel_algo_order ::
  "api_response \<Rightarrow> string \<Rightarrow> string option \<Rightarrow> py_error + (string option \<times> string option)" where
  "cancel_algo_order res inst_id algo_id =
     (if \<not> truthy_str algo_id then Inr (None, Some ''Invalid algo_id'')
      else if r_code res \<noteq> Some ''0'' then Inr (None, or_default (r_msg res) ''API Error'')
      else case first_item res of
             Inl e \<Rightarrow> Inl e
           | Inr d \<Rightarrow>
               if i_sCode d \<noteq> Some ''0'' \<and> i_sCode d \<noteq> Some ''51300''
               then Inr (None, or_default (i_sMsg d) ''Cancel failed'')
               else Inr (i_algoId d, None))"

text \<open>
  A call passes its arguments positionally. \<^verbatim>\<open>place_market_order(self, inst_id, side,
  amount, cl_ord_id, is_quote_amount=False)\<close> has four required parameters after
  \<^verbatim>\<open>self\<close> and one with a default; a call with fewer than four or more than five
  arguments raises \<^verbatim>\<open>TypeError\<close> before the body runs. \<open>meta\<close> maps an instrument to its
  lot decimals.
\<close>

datatype py_arg = A_str string | A_num real | A_bool bool

definition place_market_order_body ::
  "(string \<rightharpoonup> nat) \<Rightarrow> api_response \<Rightarrow> string \<Rightarrow> py_error + (string option \<times> string option)" where
  "place_market_order_body meta res inst_id =
     (case meta inst_id of
        None \<Rightarrow> Inr (None, Some ''No metadata'')
      | Some md \<Rightarrow>
          if r_code res \<noteq> Some ''0'' then Inr (None, or_default (r_msg res) ''API Error'')
          else case first_item res of
                 Inl e \<Rightarrow> Inl e
               | Inr d \<Rightarrow>
                   if i_sCode d \<noteq> Some ''0''
                   then Inr (None, or_default (i_sMsg d) ''Order Rejected'')
                   else Inr (i_ordId d, None))"

definition place_market_order ::
  "(string \<rightharpoonup> nat) \<Rightarrow> api_response \<Rightarrow> py_arg list \<Rightarrow>
   py_error + (string option \<times> string option)" where
  "place_market_order meta res args =
     (if length args < 4 \<or> 5 < length args then Inl TypeError
      else case args of
             A_str inst_id # _ \<Rightarrow> place_market_order_body meta res inst_id
           | _ \<Rightarrow> Inl TypeError)"

section \<open>Forced exit (strategy.py, force\_close\_position)\<close>

text \<open>
  \<^verbatim>\<open>force_close_position(reason)\<close>; \<open>cancel_res\<close> and \<open>market_res\<close> are the answers the
  exchange gives to the cancel and to the market order. The first component is an
  exception that leaves the function. Line 438 calls
  \<^verbatim>\<open>place_market_order(inst_id, "sell", size_to_sell)\<close>, with three arguments.
\<close>

definition force_close_position ::
  "(string \<rightharpoonup> nat) \<Rightarrow> sniper \<Rightarrow> string \<Rightarrow> api_response \<Rightarrow> api_response \<Rightarrow>
   py_error option \<times> sniper" where
  "force_close_position meta s reason cancel_res market_res =
     (case active_position s of
        None \<Rightarrow> (None, s)
      | Some pos0 \<Rightarrow>
          if p_state pos0 \<noteq> OPEN then (None, s)
          else
            let pos = pos0\<lparr>p_state := CLOSING\<rparr>;
                inst_id = p_inst_id pos;
                s1 = s\<lparr>active_position := Some pos\<rparr>
            in case (if truthy_str (p_attach_algo_id pos)
                     then cancel_algo_order cancel_res inst_id (p_attach_algo_id pos)
                     else Inr (None, None)) of
                 Inl e \<Rightarrow> (Some e, s1)
               | Inr _ \<Rightarrow>
                   (case p_entry_size pos of
                      None \<Rightarrow> (None, s1\<lparr>active_position := None\<rparr>)
                    | Some size_to_sell \<Rightarrow>
                        if size_to_sell = 0 then (None, s1\<lparr>active_position := None\<rparr>)
                        else
                          (case place_market_order meta market_res
                                  [A_str inst_id, A_str ''sell'', A_num size_to_sell] of
                             Inl e \<Rightarrow> (Some e, s1)
                           | Inr (exit_ord_id, error) \<Rightarrow>
                               if \<not> truthy_str exit_ord_id
                               then (None, s1\<lparr>active_position :=
                                                Some (pos\<lparr>p_state := CLOSING_FAILED\<rparr>)\<rparr>)
                               else (None, s1\<lparr>active_position :=
                                                Some (pos\<lparr>p_exit_order_id := exit_ord_id,
                                                          p_exit_type := Some reason\<rparr>)\<rparr>))))"

text \<open>An open position of 0.2 BTC bought at 100, with no attached algo order left, and the
  answer of a market order the exchange could not take.\<close>

definition open_example :: sniper where
  "open_example =
     (new_sniper default_config)
       \<lparr>active_position := Some
          \<lparr>p_inst_id = ''BTC-USDT'', p_state = OPEN, p_entry_order_id = Some ''7001'',
           p_clOrdId = ''MS86BTC1'', p_attach_algo_id = None,
           p_tp_price = 504/5, p_sl_price = 497/5, p_tp_bps = 80, p_sl_bps = 60, p_atr = 1,
           p_rr = 77/43, p_time = 1000, p_entry_price = Some 100, p_entry_size = Some (1/5),
           p_entry_fee = Some (1/50), p_peak_price = Some 100, p_exit_order_id = None,
           p_exit_type = None\<rparr>\<rparr>"

definition failed_response :: api_response where
  "failed_response = \<lparr>r_code = Some ''-1'', r_msg = Some ''Max retries exceeded'', r_data = None\<rparr>"

section \<open>Tasks, the position lock and interleavings\<close>

text \<open>
  The engine runs on one cooperative scheduler: a task runs undisturbed up to its next
  suspension point. The tasks of the model are the setup scan, the confirmation scan and
  the entry task, each with the point it is suspended at. A confirmation scan is suspended
  only where it requests the position lock; an entry task where it requests the lock and,
  holding it, at \<^verbatim>\<open>update_balance\<close> and at the entry submission. The position monitor
  and the account-update handler, which take the same lock to update or clear a position
  that exists, are not among the tasks of the model.
\<close>

datatype task =
    T_setup string
  | T_exec string
  | T_exec_wait string
  | T_enter string candidate
  | T_enter_balance string candidate
  | T_enter_submit string candidate string

fun holds_lock :: "task \<Rightarrow> bool" where
  "holds_lock (T_enter_balance _ _) = True"
| "holds_lock (T_enter_submit _ _ _) = True"
| "holds_lock _ = False"

fun task_of :: "spawned \<Rightarrow> task" where
  "task_of (Spawn_setup i) = T_setup i"
| "task_of (Spawn_execution i) = T_exec i"

record system =
  engine :: sniper
  lock_held :: bool
  tasks :: "task list"

text \<open>
  One step of the system: a market-data message is handled, or one task runs from its
  suspension point to the next. Clock readings, messages and the answers of the exchange
  are arbitrary. \<^verbatim>\<open>async with self.position_lock\<close> lets a task on only while the lock is
  free, and the lock is released when the block is left, by \<^verbatim>\<open>return\<close> or by an
  exception.
\<close>

inductive step :: "config \<Rightarrow> system \<Rightarrow> system \<Rightarrow> bool" for cfg :: config where
  on_bbo:
    "handle_bbo_data (engine sys) i msgs server_now = (e, s', sp) \<Longrightarrow>
     step cfg sys (sys\<lparr>engine := s', tasks := tasks sys @ map task_of sp\<rparr>)"
| on_trades:
    "step cfg sys (sys\<lparr>engine := handle_trade_data (engine sys) i trs\<rparr>)"
| run_setup:
    "tasks sys = pre @ T_setup i # post \<Longrightarrow>
     check_setup_conditions (setup_cfg cfg) (engine sys) i now = (out, s') \<Longrightarrow>
     step cfg sys (sys\<lparr>engine := s', tasks := pre @ post\<rparr>)"
| run_exec_precheck:
    "tasks sys = pre @ T_exec i # post \<Longrightarrow>
     step cfg sys
       (sys\<lparr>tasks := pre @ (if exec_precheck (engine sys) i then [T_exec_wait i] else []) @ post\<rparr>)"
| run_exec_locked:
    "tasks sys = pre @ T_exec_wait i # post \<Longrightarrow> \<not> lock_held sys \<Longrightarrow>
     check_execution_locked cfg (engine sys) i now now_risk = (out, s') \<Longrightarrow>
     step cfg sys
       (sys\<lparr>engine := s',
            tasks := pre @ post @ (case out of Promoted sig \<Rightarrow> [T_enter i sig] | _ \<Rightarrow> [])\<rparr>)"
| run_enter_acquire:
    "tasks sys = pre @ T_enter i sig # post \<Longrightarrow> \<not> lock_held sys \<Longrightarrow>
     step cfg sys
       (if enter_check (engine sys)
        then sys\<lparr>lock_held := True, tasks := pre @ T_enter_balance i sig # post\<rparr>
        else sys\<lparr>tasks := pre @ post\<rparr>)"
| run_enter_balance:
    "tasks sys = pre @ T_enter_balance i sig # post \<Longrightarrow>
     enter_after_balance (exec_cfg cfg) (engine sys) sig balance = (r, s') \<Longrightarrow>
     step cfg sys
       (case r of
          Inr (Some size_base) \<Rightarrow>
            sys\<lparr>engine := s', tasks := pre @ T_enter_submit i sig cl_ord_id # post\<rparr>
        | _ \<Rightarrow> sys\<lparr>engine := s', lock_held := False, tasks := pre @ post\<rparr>)"
| run_enter_submit:
    "tasks sys = pre @ T_enter_submit i sig cl_ord_id # post \<Longrightarrow>
     step cfg sys
       (sys\<lparr>engine := enter_commit (engine sys) i sig cl_ord_id resp now,
            lock_held := False, tasks := pre @ post\<rparr>)"

text \<open>A start: the lock is free and no task is inside the locked region.\<close>

definition initial :: "system \<Rightarrow> bool" where
  "initial sys \<longleftrightarrow> \<not> lock_held sys \<and> (\<forall>t \<in> set (tasks sys). \<not> holds_lock t)"

definition lock_inv :: "system \<Rightarrow> bool" where
  "lock_inv sys \<longleftrightarrow>
     length (filter holds_lock (tasks sys)) = (if lock_held sys then 1 else 0)
     \<and> (lock_held sys \<longrightarrow> active_position (engine sys) = None)"

text \<open>
  Two entry tasks dispatched for two instruments race for the single position: the states
  of the run in which the first takes the lock, is suspended twice while holding it,
  commits its position and releases, and the second then fails its re-check.
\<close>

definition example_signal :: candidate where
  "example_signal =
     \<lparr>c_entry_price = 100, c_tp = 504/5, c_sl = 497/5, c_tp_bps = 80, c_sl_bps = 60,
      c_atr = 1, c_breakout_strength = 10000/99, c_rr = 77/43, c_time = 1000,
      c_imbalance = Some 2\<rparr>"

definition example_entry_response :: entry_response where
  "example_entry_response =
     \<lparr>er_ord_id = Some ''7001'', er_algo_id = Some ''9001'', er_error = None\<rparr>"

definition race_start :: system where
  "race_start =
     \<lparr>engine = new_sniper default_config, lock_held = False,
      tasks = [T_enter ''BTC-USDT'' example_signal, T_enter ''ETH-USDT'' example_signal]\<rparr>"

definition race_locked :: system where
  "race_locked =
     \<lparr>engine = new_sniper default_config, lock_held = True,
      tasks = [T_enter_balance ''BTC-USDT'' example_signal,
               T_enter ''ETH-USDT'' example_signal]\<rparr>"

definition race_submitting :: system where
  "race_submitting =
     \<lparr>engine = (new_sniper default_config)\<lparr>usdt_balance := 1000\<rparr>, lock_held = True,
      tasks = [T_enter_submit ''BTC-USDT'' example_signal ''MS86BTC1'',
               T_enter ''ETH-USDT'' example_signal]\<rparr>"

definition race_committed :: system where
  "race_committed =
     \<lparr>engine = enter_commit ((new_sniper default_config)\<lparr>usdt_balance := 1000\<rparr>)
                 ''BTC-USDT'' example_signal ''MS86BTC1'' example_entry_response 1002,
      lock_held = False,
      tasks = [T_enter ''ETH-USDT'' example_signal]\<rparr>"

definition race_done :: system where
  "race_done =
     \<lparr>engine = enter_commit ((new_sniper default_config)\<lparr>usdt_balance := 1000\<rparr>)
                 ''BTC-USDT'' example_signal ''MS86BTC1'' example_entry_response 1002,
      lock_held = False, tasks = []\<rparr>"

text \<open>An engine with one armed candidate and a top-of-book snapshot whose bid notional is
  about twice the ask notional.\<close>

definition armed_example :: sniper where
  "armed_example =
     (new_sniper default_config)
       \<lparr>pairs_data := [''BTC-USDT'' \<mapsto>
           \<lparr>last_armed_high = None, best_bid = Some 100, best_ask = Some (1001/10),
            mid = Some (2001/20), order_book = Some ([[100, 10]], [[1001/10, 5]])\<rparr>],
        armed_candidates := [''BTC-USDT'' \<mapsto> example_signal\<lparr>c_imbalance := None\<rparr>]\<rparr>"

text \<open>A risk state after two winning trades on one instrument, at times 100 and 4999.\<close>

definition two_trades :: risk_state where
  "two_trades =
     record_trade (record_trade new_risk_manager ''BTC-USDT'' 1 100 100 100)
       ''BTC-USDT'' 1 4999 4999 4999"











text \<open>A top-of-book message whose best bid and best ask are both 0.\<close>

definition zero_book :: bbo where
  "zero_book = \<lparr>bbo_bids = Some [[0, 1]], bbo_asks = Some [[0, 1]]\<rparr>"

section \<open>BarAggregator: the closed-bar series\<close>





lemma sorted_wrt_deque_append:
  assumes "sorted_wrt R (xs @ [x])"
  shows "sorted_wrt R (deque_append n xs x)"
  unfolding deque_append_def using assms by (rule sorted_wrt_drop)














section \<open>RiskManager: cooldown, break-even trades, the frame of the admission check\<close>

lemma last_trade_time_record_trade:
  "last_trade_time (record_trade s i pnl t0 tw tls) = t0"
  by (simp add: record_trade_def Let_def)

text \<open>
  C7. After a trade recorded at time \<open>t0\<close>, \<^verbatim>\<open>can_open_position\<close> called at time \<open>t\<close>
  answers \<open>(False, reason)\<close> whenever \<open>t - t0\<close> is below the post-exit cooldown, whatever
  the other limits; and \<open>(True, '''')\<close> once \<open>t - t0\<close> has reached the cooldown, when no
  other limit is tripped.
\<close>

theorem can_open_position_cooldown:
  fixes rc :: risk_config
  defines "cd \<equiv> COOL_DOWN_AFTER_EXIT_SEC rc"
  assumes s: "s = record_trade s0 i pnl t0 tw tls"
  shows "(t - t0 < cd \<longrightarrow>
            fst (can_open_position rc s inst_id open_positions t)
              = (False, ''Cooldown ('' @ show_int (py_int (cd - (t - t0))) @ ''s)''))
         \<and> (cd \<le> t - t0 \<and> no_other_limit_tripped rc s inst_id open_positions t \<longrightarrow>
              fst (can_open_position rc s inst_id open_positions t) = (True, ''''))"
proof (intro conjI impI)
  assume "t - t0 < cd"
  then show "fst (can_open_position rc s inst_id open_positions t)
              = (False, ''Cooldown ('' @ show_int (py_int (cd - (t - t0))) @ ''s)'')"
    by (simp add: can_open_position_def s last_trade_time_record_trade cd_def)
next
  assume a: "cd \<le> t - t0 \<and> no_other_limit_tripped rc s inst_id open_positions t"
  then have c: "\<not> t - last_trade_time s < COOL_DOWN_AFTER_EXIT_SEC rc"
    by (simp add: s last_trade_time_record_trade cd_def)
  from a have n: "no_other_limit_tripped rc s inst_id open_positions t" by simp
  show "fst (can_open_position rc s inst_id open_positions t) = (True, '''')"
    using c n unfolding can_open_position_def no_other_limit_tripped_def
    by (auto simp: Let_def split: option.splits)
qed

theorem can_open_position_cooldown_witness:
  "fst (can_open_position default_risk_config
          (record_trade new_risk_manager ''BTC-USDT'' 1 1000 1000 1000) (Some ''BTC-USDT'') 0 1001)
     = (False, ''Cooldown (1s)'')
   \<and> no_other_limit_tripped default_risk_config
        (record_trade new_risk_manager ''BTC-USDT'' 1 1000 1000 1000) (Some ''BTC-USDT'') 0 1002
   \<and> fst (can_open_position default_risk_config
          (record_trade new_risk_manager ''BTC-USDT'' 1 1000 1000 1000) (Some ''BTC-USDT'') 0 1002)
     = (True, '''')"
proof -
  let ?s = "record_trade new_risk_manager ''BTC-USDT'' 1 1000 1000 1000"
  have n: "no_other_limit_tripped default_risk_config ?s (Some ''BTC-USDT'') 0 1002"
    by (simp add: no_other_limit_tripped_def default_risk_config_def record_trade_def
        new_risk_manager_def Let_def)
  have cd: "COOL_DOWN_AFTER_EXIT_SEC default_risk_config = 2"
    by (simp add: default_risk_config_def)
  have sh: "show_int (py_int 1) = ''1''"
    by (simp add: show_int_def py_int_def show_nat.simps)
  from can_open_position_cooldown [OF refl, of 1001 1000 default_risk_config new_risk_manager
      "''BTC-USDT''" 1 1000 1000 "Some ''BTC-USDT''" 0]
  have a: "fst (can_open_position default_risk_config ?s (Some ''BTC-USDT'') 0 1001)
     = (False, ''Cooldown (1s)'')" by (simp add: cd sh)
  from can_open_position_cooldown [OF refl, of 1002 1000 default_risk_config new_risk_manager
      "''BTC-USDT''" 1 1000 1000 "Some ''BTC-USDT''" 0] n
  have b: "fst (can_open_position default_risk_config ?s (Some ''BTC-USDT'') 0 1002) = (True, '''')"
    by (simp add: cd)
  from a n b show ?thesis by blast
qed

text \<open>
  C9. A trade with pnl exactly 0 is booked as a win: the losing streak is reset to 0 and
  \<^verbatim>\<open>last_loss_time\<close> is left alone, while \<^verbatim>\<open>last_trade_time\<close> is set and the
  instrument's window gets a new timestamp. The last two happen for every pnl, so the
  post-exit cooldown and the hourly window restart after every trade.
\<close>

theorem record_trade_break_even:
  "consecutive_losses (record_trade s i 0 t_trade t_window t_loss) = 0
   \<and> last_loss_time (record_trade s i 0 t_trade t_window t_loss) = last_loss_time s
   \<and> daily_pnl (record_trade s i 0 t_trade t_window t_loss) = daily_pnl s
   \<and> last_trade_time (record_trade s i pnl t_trade t_window t_loss) = t_trade
   \<and> pair_trade_times (record_trade s i pnl t_trade t_window t_loss)
       = (pair_trade_times s)(i := pair_trade_times s i @ [t_window])"
  by (simp add: record_trade_def Let_def)

text \<open>
  C10, as the claim states it, fails: a call that an earlier check turns down returns before
  the window is touched. Here the post-exit cooldown is running at time 5000, and the
  timestamp 100, older than an hour, stays in the instrument's list.
\<close>

theorem can_open_position_prune_counterexample:
  "fst (can_open_position default_risk_config two_trades (Some ''BTC-USDT'') 0 5000)
     = (False, ''Cooldown (1s)'')
   \<and> pair_trade_times
       (snd (can_open_position default_risk_config two_trades (Some ''BTC-USDT'') 0 5000))
       ''BTC-USDT'' = [100, 4999]
   \<and> \<not> (5000 - 100 < (3600 :: real))"
  by (simp add: can_open_position_def default_risk_config_def two_trades_def record_trade_def
      new_risk_manager_def show_int_def py_int_def show_nat.simps Let_def)

text \<open>
  C10, amended. A call that passes the five earlier checks, names an instrument and finds
  the hourly cap configured replaces that instrument's list by its entries younger than
  3600 seconds and changes nothing else; every other call leaves the whole state as it was.
\<close>

theorem can_open_position_frame:
  "snd (can_open_position rc s inst_id open_positions now) =
     (if reaches_rate_check rc s inst_id open_positions now
      then s\<lparr>pair_trade_times :=
               (pair_trade_times s)(the inst_id :=
                  filter (\<lambda>t. now - t < 3600) (pair_trade_times s (the inst_id)))\<rparr>
      else s)"
  by (auto simp: can_open_position_def reaches_rate_check_def truthy_inst_def Let_def
      split: option.splits)

theorem can_open_position_frame_witness:
  "reaches_rate_check default_risk_config two_trades (Some ''BTC-USDT'') 0 5001
   \<and> pair_trade_times
       (snd (can_open_position default_risk_config two_trades (Some ''BTC-USDT'') 0 5001))
       ''BTC-USDT'' = [4999]
   \<and> \<not> reaches_rate_check default_risk_config two_trades (Some ''BTC-USDT'') 0 5000
   \<and> snd (can_open_position default_risk_config two_trades (Some ''BTC-USDT'') 0 5000)
       = two_trades"
proof -
  have v: "last_trade_time two_trades = 4999" "consecutive_losses two_trades = 0"
    "daily_pnl two_trades = 2" "pair_trade_times two_trades ''BTC-USDT'' = [100, 4999]"
    by (simp_all add: two_trades_def record_trade_def new_risk_manager_def Let_def)
  have r1: "reaches_rate_check default_risk_config two_trades (Some ''BTC-USDT'') 0 5001"
    by (simp add: reaches_rate_check_def default_risk_config_def v truthy_inst_def)
  have r0: "\<not> reaches_rate_check default_risk_config two_trades (Some ''BTC-USDT'') 0 5000"
    by (simp add: reaches_rate_check_def default_risk_config_def v)
  have a: "pair_trade_times
       (snd (can_open_position default_risk_config two_trades (Some ''BTC-USDT'') 0 5001))
       ''BTC-USDT'' = [4999]"
    using can_open_position_frame [of default_risk_config two_trades "Some ''BTC-USDT''" 0 5001] r1
    by (simp add: v)
  have b: "snd (can_open_position default_risk_config two_trades (Some ''BTC-USDT'') 0 5000)
             = two_trades"
    using can_open_position_frame [of default_risk_config two_trades "Some ''BTC-USDT''" 0 5000] r0
    by simp
  from r1 a r0 b show ?thesis by blast
qed

section \<open>The z-score\<close>

lemma sum_sq_dev_unbound:
  "xs \<noteq> [] \<Longrightarrow> sum_sq_dev Map.empty xs = Inl NameError"
  by (cases xs) (simp_all add: load_name_def)

lemma compute_zscore_try_raises:
  "arr \<noteq> [] \<Longrightarrow> compute_zscore_try arr = Inl NameError"
  by (simp add: compute_zscore_try_def py_div_def sum_sq_dev_unbound)

lemma compute_zscore_zero: "compute_zscore returns = 0"
proof (cases "length returns < 5")
  case True
  then show ?thesis by (simp add: compute_zscore_def)
next
  case False
  then have "returns \<noteq> []" by auto
  then show ?thesis by (simp add: compute_zscore_def compute_zscore_try_raises)
qed

text \<open>
  C3. The code does not compute the z-score of the claim. On the five returns
  0, 0, 0, 0, 5 the mean is 1 and the population standard deviation 2, so the claimed value
  is (5 - 1) / 2 = 2; the code reads \<^verbatim>\<open>mean\<close> before it is assigned, the \<^verbatim>\<open>NameError\<close> is
  swallowed by the bare \<^verbatim>\<open>except\<close>, and the result is 0.
\<close>

theorem compute_zscore_diverges:
  "compute_zscore [0, 0, 0, 0, 5] = 0
   \<and> compute_zscore_try [0, 0, 0, 0, 5] = Inl NameError
   \<and> zscore_spec [0, 0, 0, 0, 5] = 2"
proof -
  have "sqrt 4 = 2" by simp
  then have "zscore_spec [0, 0, 0, 0, 5] = 2"
    by (simp add: zscore_spec_def Let_def)
  then show ?thesis by (simp add: compute_zscore_zero compute_zscore_try_raises)
qed

section \<open>Setup scan: targets and risk-reward\<close>

lemma setup_return_Armed:
  "setup_return r s i = (Armed, s') \<Longrightarrow> r = Armed"
  by (cases r) (simp_all add: setup_return_def)

lemma ema_filter_not_Armed: "ema_filter sc closes \<noteq> Return Armed"
  by (simp add: ema_filter_def split: sum.splits option.splits)

lemma breakout_test_not_Armed: "breakout_test sc s i closes \<noteq> Return Armed"
  by (simp add: breakout_test_def Let_def split: sum.splits)

lemma setup_breakout_not_Armed: "setup_breakout sc s i \<noteq> Return Armed"
  using ema_filter_not_Armed [of sc] breakout_test_not_Armed [of sc s i]
  by (auto simp: setup_breakout_def Let_def split: scan.splits)

lemma setup_targets_not_Armed: "setup_targets sc a p b now \<noteq> Return Armed"
  by (simp add: setup_targets_def Let_def split: if_splits sum.splits)

lemma setup_targets_Continue:
  assumes "setup_targets sc a p b now = Continue c"
  shows "c_entry_price c = p \<and> p \<noteq> 0
         \<and> c_rr c = (c_atr c * TP_ATR_MULTIPLIER sc / p * 10000
                      - (FEE_TAKER_BPS sc + MAX_SLIPPAGE_BPS sc))
                   / (c_atr c * SL_ATR_MULTIPLIER sc / p * 10000
                      + (FEE_TAKER_BPS sc + MAX_SLIPPAGE_BPS sc))
         \<and> c_tp_bps c = max (MIN_TP_BPS sc) (min (MAX_TP_BPS sc)
                            (c_atr c * TP_ATR_MULTIPLIER sc / p * 10000))
         \<and> c_sl_bps c = max (MIN_SL_BPS sc) (min (MAX_SL_BPS sc)
                            (c_atr c * SL_ATR_MULTIPLIER sc / p * 10000))"
  using assms
  by (auto simp: setup_targets_def Let_def py_div_def dec_div_def split: if_splits)

lemma check_setup_conditions_Armed:
  assumes "check_setup_conditions sc s i now = (Armed, s')"
  shows "\<exists>c p b. setup_targets sc (bar_aggregators s i) p b now = Continue c
                 \<and> armed_candidates s' i = Some c"
proof (cases "setup_breakout sc s i")
  case (Return r)
  with assms have "r = Armed"
    by (simp add: check_setup_conditions_def setup_return_Armed)
  with Return setup_breakout_not_Armed show ?thesis by blast
next
  case (Continue x)
  obtain p h b where x: "x = (p, h, b)" by (cases x)
  show ?thesis
  proof (cases "setup_targets sc (bar_aggregators s i) p b now")
    case (Return r)
    with assms Continue x have "r = Armed"
      by (auto simp: check_setup_conditions_def Let_def dest: setup_return_Armed)
    with Return setup_targets_not_Armed show ?thesis by blast
  next
    case (Continue c)
    with assms \<open>setup_breakout sc s i = Continue x\<close> x
    have "armed_candidates s' i = Some c"
      by (auto simp: check_setup_conditions_def Let_def)
    with Continue show ?thesis by blast
  qed
qed

lemma breakout_example_agg:
  "bar_aggregators breakout_example ''BTC-USDT'' =
     (new_aggregator 1 400)
       \<lparr>bars := map flat_bar [1, 2, 3, 4, 5, 6, 7, 8, 9, 10, 11, 12, 13, 14] @
                 [\<lparr>b_start = 15, b_open = 99, b_high = 100, b_low = 99, b_close = 100,
                   b_volume = 0\<rparr>]\<rparr>"
  by (simp add: breakout_example_def)

lemma breakout_example_breakout:
  "setup_breakout default_setup_config breakout_example ''BTC-USDT'' =
     Continue (100, 99, 10000/99)"
  by (simp add: setup_breakout_def ema_filter_def breakout_test_def breakout_example_agg
      default_setup_config_def new_aggregator_def get_closes_def flat_bar_def slice_from_def
      dec_div_def empty_pair_data_def Let_def breakout_example_def new_sniper_def)

lemma breakout_example_targets:
  "setup_targets default_setup_config (bar_aggregators breakout_example ''BTC-USDT'')
     100 (10000/99) 1000 =
   Continue \<lparr>c_entry_price = 100, c_tp = 504/5, c_sl = 497/5, c_tp_bps = 80, c_sl_bps = 60,
             c_atr = 1, c_breakout_strength = 10000/99, c_rr = (400 - 15) / (200 + 15),
             c_time = 1000, c_imbalance = None\<rparr>"
  by (simp add: setup_targets_def breakout_example_agg default_setup_config_def
      new_aggregator_def get_bars_def flat_bar_def slice_from_def true_ranges_def
      dec_div_def py_div_def Let_def)

lemma breakout_example_armed:
  "check_setup_conditions default_setup_config breakout_example ''BTC-USDT'' 1000 =
     (Armed, breakout_example\<lparr>armed_candidates := (armed_candidates breakout_example)
        (''BTC-USDT'' \<mapsto>
           \<lparr>c_entry_price = 100, c_tp = 504/5, c_sl = 497/5, c_tp_bps = 80, c_sl_bps = 60,
            c_atr = 1, c_breakout_strength = 10000/99, c_rr = (400 - 15) / (200 + 15),
            c_time = 1000, c_imbalance = None\<rparr>)\<rparr>)"
proof -
  have dz: "\<not> BREAKOUT_DEAD_ZONE_BPS default_setup_config > 0"
    by (simp add: default_setup_config_def)
  show ?thesis
    by (simp add: check_setup_conditions_def breakout_example_breakout
        breakout_example_targets dz)
qed

text \<open>
  C4, as the claim states it, fails on the denominator: the stored risk-reward divides by
  the raw stop distance plus the cost, not minus it. In the example the scan arms at entry
  price 100 with ATR 1 under the multipliers 4 and 2 and the cost 10 + 5 bps; the stored
  value is (400 - 15) / (200 + 15), and the claim's (400 - 15) / (200 - 15) differs.
\<close>

theorem check_setup_conditions_rr_counterexample:
  "check_setup_conditions default_setup_config breakout_example ''BTC-USDT'' 1000 =
     (Armed, breakout_example\<lparr>armed_candidates := (armed_candidates breakout_example)
        (''BTC-USDT'' \<mapsto>
           \<lparr>c_entry_price = 100, c_tp = 504/5, c_sl = 497/5, c_tp_bps = 80, c_sl_bps = 60,
            c_atr = 1, c_breakout_strength = 10000/99, c_rr = (400 - 15) / (200 + 15),
            c_time = 1000, c_imbalance = None\<rparr>)\<rparr>)
   \<and> ((400 - 15) / (200 + 15) :: real) \<noteq> (400 - 15) / (200 - 15)"
  using breakout_example_armed by simp

text \<open>
  C4, amended. Whenever the setup scan arms a candidate, the stored risk-reward is the raw
  take-profit distance in bps minus the cost, divided by the raw stop distance in bps plus
  the cost, the cost being taker fee plus slippage in bps; the stored targets are the raw
  ones clamped. At entry price 100 with ATR 1 and the multipliers 4 and 2 the raw targets
  are 400 and 200 bps, and the stored risk-reward is (400 - cost) / (200 + cost).
\<close>

theorem check_setup_conditions_rr:
  assumes "check_setup_conditions sc s i now = (Armed, s')"
  shows "\<exists>c. armed_candidates s' i = Some c
           \<and> c_rr c = (raw_bps (c_atr c) (TP_ATR_MULTIPLIER sc) (c_entry_price c)
                         - (FEE_TAKER_BPS sc + MAX_SLIPPAGE_BPS sc))
                      / (raw_bps (c_atr c) (SL_ATR_MULTIPLIER sc) (c_entry_price c)
                         + (FEE_TAKER_BPS sc + MAX_SLIPPAGE_BPS sc))
           \<and> c_tp_bps c = max (MIN_TP_BPS sc) (min (MAX_TP_BPS sc)
                               (raw_bps (c_atr c) (TP_ATR_MULTIPLIER sc) (c_entry_price c)))
           \<and> c_sl_bps c = max (MIN_SL_BPS sc) (min (MAX_SL_BPS sc)
                               (raw_bps (c_atr c) (SL_ATR_MULTIPLIER sc) (c_entry_price c)))
           \<and> (c_entry_price c = 100 \<and> c_atr c = 1
                \<and> TP_ATR_MULTIPLIER sc = 4 \<and> SL_ATR_MULTIPLIER sc = 2 \<longrightarrow>
                raw_bps (c_atr c) (TP_ATR_MULTIPLIER sc) (c_entry_price c) = 400
                \<and> raw_bps (c_atr c) (SL_ATR_MULTIPLIER sc) (c_entry_price c) = 200
                \<and> c_rr c = (400 - (FEE_TAKER_BPS sc + MAX_SLIPPAGE_BPS sc))
                           / (200 + (FEE_TAKER_BPS sc + MAX_SLIPPAGE_BPS sc)))"
proof -
  from check_setup_conditions_Armed [OF assms] obtain c p b where
    t: "setup_targets sc (bar_aggregators s i) p b now = Continue c"
    and a: "armed_candidates s' i = Some c" by blast
  note f = setup_targets_Continue [OF t]
  from f have p: "c_entry_price c = p" by simp
  have rr: "c_rr c = (raw_bps (c_atr c) (TP_ATR_MULTIPLIER sc) (c_entry_price c)
                         - (FEE_TAKER_BPS sc + MAX_SLIPPAGE_BPS sc))
                      / (raw_bps (c_atr c) (SL_ATR_MULTIPLIER sc) (c_entry_price c)
                         + (FEE_TAKER_BPS sc + MAX_SLIPPAGE_BPS sc))"
    using f by (simp add: raw_bps_def p)
  have tp: "c_tp_bps c = max (MIN_TP_BPS sc) (min (MAX_TP_BPS sc)
                               (raw_bps (c_atr c) (TP_ATR_MULTIPLIER sc) (c_entry_price c)))"
    using f by (simp add: raw_bps_def p)
  have sl: "c_sl_bps c = max (MIN_SL_BPS sc) (min (MAX_SL_BPS sc)
                               (raw_bps (c_atr c) (SL_ATR_MULTIPLIER sc) (c_entry_price c)))"
    using f by (simp add: raw_bps_def p)
  have num: "c_entry_price c = 100 \<and> c_atr c = 1
                \<and> TP_ATR_MULTIPLIER sc = 4 \<and> SL_ATR_MULTIPLIER sc = 2 \<longrightarrow>
                raw_bps (c_atr c) (TP_ATR_MULTIPLIER sc) (c_entry_price c) = 400
                \<and> raw_bps (c_atr c) (SL_ATR_MULTIPLIER sc) (c_entry_price c) = 200
                \<and> c_rr c = (400 - (FEE_TAKER_BPS sc + MAX_SLIPPAGE_BPS sc))
                           / (200 + (FEE_TAKER_BPS sc + MAX_SLIPPAGE_BPS sc))"
  proof
    assume h: "c_entry_price c = 100 \<and> c_atr c = 1
                \<and> TP_ATR_MULTIPLIER sc = 4 \<and> SL_ATR_MULTIPLIER sc = 2"
    then have r1: "raw_bps (c_atr c) (TP_ATR_MULTIPLIER sc) (c_entry_price c) = 400"
      and r2: "raw_bps (c_atr c) (SL_ATR_MULTIPLIER sc) (c_entry_price c) = 200"
      by (simp_all add: raw_bps_def)
    from rr r1 r2 show "raw_bps (c_atr c) (TP_ATR_MULTIPLIER sc) (c_entry_price c) = 400
                \<and> raw_bps (c_atr c) (SL_ATR_MULTIPLIER sc) (c_entry_price c) = 200
                \<and> c_rr c = (400 - (FEE_TAKER_BPS sc + MAX_SLIPPAGE_BPS sc))
                           / (200 + (FEE_TAKER_BPS sc + MAX_SLIPPAGE_BPS sc))" by simp
  qed
  from a rr tp sl num show ?thesis by blast
qed

theorem check_setup_conditions_rr_witness:
  "fst (check_setup_conditions default_setup_config breakout_example ''BTC-USDT'' 1000) = Armed
   \<and> (\<exists>c. armed_candidates
              (snd (check_setup_conditions default_setup_config breakout_example ''BTC-USDT'' 1000))
              ''BTC-USDT'' = Some c
          \<and> c_entry_price c = 100 \<and> c_atr c = 1
          \<and> TP_ATR_MULTIPLIER default_setup_config = 4
          \<and> SL_ATR_MULTIPLIER default_setup_config = 2
          \<and> raw_bps (c_atr c) (TP_ATR_MULTIPLIER default_setup_config) (c_entry_price c) = 400
          \<and> raw_bps (c_atr c) (SL_ATR_MULTIPLIER default_setup_config) (c_entry_price c) = 200
          \<and> c_rr c = (400 - (10 + 5)) / (200 + (10 + 5))
          \<and> c_tp_bps c = 80 \<and> c_sl_bps c = 60)"
proof -
  let ?r = "check_setup_conditions default_setup_config breakout_example ''BTC-USDT'' 1000"
  have e: "?r = (Armed, snd ?r)" using breakout_example_armed by simp
  from check_setup_conditions_rr [OF e] obtain c where
    a: "armed_candidates (snd ?r) ''BTC-USDT'' = Some c"
    and n: "c_entry_price c = 100 \<and> c_atr c = 1
                \<and> TP_ATR_MULTIPLIER default_setup_config = 4
                \<and> SL_ATR_MULTIPLIER default_setup_config = 2 \<longrightarrow>
                raw_bps (c_atr c) (TP_ATR_MULTIPLIER default_setup_config) (c_entry_price c) = 400
                \<and> raw_bps (c_atr c) (SL_ATR_MULTIPLIER default_setup_config) (c_entry_price c) = 200
                \<and> c_rr c = (400 - (FEE_TAKER_BPS default_setup_config
                                      + MAX_SLIPPAGE_BPS default_setup_config))
                           / (200 + (FEE_TAKER_BPS default_setup_config
                                      + MAX_SLIPPAGE_BPS default_setup_config))"
    by blast
  from a have c: "c = \<lparr>c_entry_price = 100, c_tp = 504/5, c_sl = 497/5, c_tp_bps = 80,
            c_sl_bps = 60, c_atr = 1, c_breakout_strength = 10000/99,
            c_rr = (400 - 15) / (200 + 15), c_time = 1000, c_imbalance = None\<rparr>"
    by (simp add: breakout_example_armed)
  have m: "TP_ATR_MULTIPLIER default_setup_config = 4"
    "SL_ATR_MULTIPLIER default_setup_config = 2"
    "FEE_TAKER_BPS default_setup_config = 10" "MAX_SLIPPAGE_BPS default_setup_config = 5"
    by (simp_all add: default_setup_config_def)
  have h: "c_entry_price c = 100 \<and> c_atr c = 1" by (simp add: c)
  from n h m have
    "raw_bps (c_atr c) (TP_ATR_MULTIPLIER default_setup_config) (c_entry_price c) = 400
     \<and> raw_bps (c_atr c) (SL_ATR_MULTIPLIER default_setup_config) (c_entry_price c) = 200
     \<and> c_rr c = (400 - (10 + 5)) / (200 + (10 + 5))" by simp
  moreover have "c_tp_bps c = 80 \<and> c_sl_bps c = 60" by (simp add: c)
  moreover have "fst ?r = Armed" by (simp add: breakout_example_armed)
  ultimately show ?thesis using a h m by blast
qed

section \<open>Market-data handlers: anomalous ticks\<close>

lemma handle_bbo_data_falsy_side:
  "falsy_side (bbo_bids b) \<or> falsy_side (bbo_asks b) \<Longrightarrow>
   handle_bbo_data s i (b # rest) now = (None, s, [])"
  by (simp add: handle_bbo_data_def)

lemma handle_bbo_data_nonpositive_mid:
  assumes "bbo_mid b = Some m" "m \<le> 0"
  shows "\<exists>pd. handle_bbo_data s i (b # rest) now =
           (None, s\<lparr>pairs_data := (pairs_data s)(i \<mapsto> pd)\<rparr>, [])"
  using assms
  by (auto simp: handle_bbo_data_def bbo_mid_def falsy_side_def Let_def
      split: option.splits list.splits)

text \<open>
  What the guards of the two handlers do ensure. A top-of-book update with a missing or
  empty side, and a trade print with a non-positive price, are skipped with no change of the
  engine state and no scan scheduled. A top-of-book update whose mid price is not positive
  schedules no scan and changes no bar aggregator, no armed candidate, not the position
  and not the risk state.
\<close>

lemma anomalous_tick_guards:
  "(falsy_side (bbo_bids b) \<or> falsy_side (bbo_asks b) \<longrightarrow>
      handle_bbo_data s i (b # rest) now = (None, s, []))
   \<and> (bbo_mid b = Some m \<and> m \<le> 0 \<longrightarrow>
        fst (handle_bbo_data s i (b # rest) now) = None
        \<and> snd (snd (handle_bbo_data s i (b # rest) now)) = []
        \<and> bar_aggregators (fst (snd (handle_bbo_data s i (b # rest) now))) = bar_aggregators s
        \<and> armed_candidates (fst (snd (handle_bbo_data s i (b # rest) now))) = armed_candidates s
        \<and> active_position (fst (snd (handle_bbo_data s i (b # rest) now))) = active_position s
        \<and> risk_manager (fst (snd (handle_bbo_data s i (b # rest) now))) = risk_manager s)
   \<and> (px tr = Some p \<and> p \<le> 0 \<longrightarrow> handle_trade s i tr now = s)"
proof (intro conjI impI)
  assume "falsy_side (bbo_bids b) \<or> falsy_side (bbo_asks b)"
  then show "handle_bbo_data s i (b # rest) now = (None, s, [])"
    by (rule handle_bbo_data_falsy_side)
next
  assume "px tr = Some p \<and> p \<le> 0"
  then show "handle_trade s i tr now = s" by (simp add: handle_trade_def)
next
  assume a: "bbo_mid b = Some m \<and> m \<le> 0"
  then obtain pd where r: "handle_bbo_data s i (b # rest) now =
           (None, s\<lparr>pairs_data := (pairs_data s)(i \<mapsto> pd)\<rparr>, [])"
    using handle_bbo_data_nonpositive_mid by blast
  show "fst (handle_bbo_data s i (b # rest) now) = None" by (simp add: r)
  show "snd (snd (handle_bbo_data s i (b # rest) now)) = []" by (simp add: r)
  show "bar_aggregators (fst (snd (handle_bbo_data s i (b # rest) now))) = bar_aggregators s"
    by (simp add: r)
  show "armed_candidates (fst (snd (handle_bbo_data s i (b # rest) now))) = armed_candidates s"
    by (simp add: r)
  show "active_position (fst (snd (handle_bbo_data s i (b # rest) now))) = active_position s"
    by (simp add: r)
  show "risk_manager (fst (snd (handle_bbo_data s i (b # rest) now))) = risk_manager s"
    by (simp add: r)
qed

lemma anomalous_tick_guards_example:
  "falsy_side (bbo_bids \<lparr>bbo_bids = Some [], bbo_asks = Some [[101, 2]]\<rparr>)
   \<and> handle_bbo_data breakout_example ''BTC-USDT''
        [\<lparr>bbo_bids = Some [], bbo_asks = Some [[101, 2]]\<rparr>] 1000 = (None, breakout_example, [])
   \<and> bbo_mid \<lparr>bbo_bids = Some [[0, 1]], bbo_asks = Some [[0, 1]]\<rparr> = Some 0
   \<and> bar_aggregators (fst (snd (handle_bbo_data breakout_example ''BTC-USDT''
        [\<lparr>bbo_bids = Some [[0, 1]], bbo_asks = Some [[0, 1]]\<rparr>] 1000)))
      = bar_aggregators breakout_example
   \<and> snd (snd (handle_bbo_data breakout_example ''BTC-USDT''
        [\<lparr>bbo_bids = Some [[0, 1]], bbo_asks = Some [[0, 1]]\<rparr>] 1000)) = []
   \<and> handle_trade breakout_example ''BTC-USDT'' \<lparr>px = Some 0, sz = Some 3\<rparr> 1000
      = breakout_example"
proof -
  let ?e = "\<lparr>bbo_bids = Some [], bbo_asks = Some [[101, 2]]\<rparr>"
  let ?z = "\<lparr>bbo_bids = Some [[0, 1]], bbo_asks = Some [[0, 1]]\<rparr>"
  let ?t = "\<lparr>px = Some 0, sz = Some 3\<rparr>"
  note t = anomalous_tick_guards [of ?e breakout_example "''BTC-USDT''" "[]" 1000 0 ?t 0]
  note u = anomalous_tick_guards [of ?z breakout_example "''BTC-USDT''" "[]" 1000 0 ?t 0]
  have f: "falsy_side (bbo_bids ?e)" by (simp add: falsy_side_def)
  have m: "bbo_mid ?z = Some 0" by (simp add: bbo_mid_def)
  have p: "px ?t = Some 0 \<and> (0::real) \<le> 0" by simp
  from t f have 1: "handle_bbo_data breakout_example ''BTC-USDT'' [?e] 1000
                     = (None, breakout_example, [])" by blast
  from u m have 2: "bar_aggregators (fst (snd (handle_bbo_data breakout_example ''BTC-USDT''
        [?z] 1000))) = bar_aggregators breakout_example
      \<and> snd (snd (handle_bbo_data breakout_example ''BTC-USDT'' [?z] 1000)) = []" by simp
  from t p have 3: "handle_trade breakout_example ''BTC-USDT'' ?t 1000 = breakout_example"
    by blast
  from f 1 m 2 3 show ?thesis by blast
qed

section \<open>Forced exit: the market order is never submitted\<close>

lemma place_market_order_three_args:
  "place_market_order meta res [a, b, c] = Inl TypeError"
  by (simp add: place_market_order_def)

lemma force_close_position_raises:
  assumes "active_position s = Some pos" "p_state pos = OPEN"
    and "p_entry_size pos = Some size_to_sell" "size_to_sell \<noteq> 0"
    and "\<not> truthy_str (p_attach_algo_id pos)"
  shows "force_close_position meta s reason cancel_res market_res =
           (Some TypeError, s\<lparr>active_position := Some (pos\<lparr>p_state := CLOSING\<rparr>)\<rparr>)"
  using assms
  by (simp add: force_close_position_def Let_def place_market_order_three_args)

text \<open>
  C2. On an OPEN position with a recorded entry size, \<^verbatim>\<open>force_close_position\<close> does not
  reach the state CLOSING\_FAILED: the call of \<^verbatim>\<open>place_market_order\<close> lacks the required
  \<^verbatim>\<open>cl_ord_id\<close> argument, so a \<^verbatim>\<open>TypeError\<close> leaves the function and the position stays
  in CLOSING, whatever the exchange would have answered. With the four arguments the same
  failed answer gives no order id, which is the case the source maps to CLOSING\_FAILED.
\<close>

theorem force_close_position_type_error:
  "fst (force_close_position [''BTC-USDT'' \<mapsto> 4] open_example ''MAX_HOLD_TIME''
          failed_response failed_response) = Some TypeError
   \<and> map_option p_state
        (active_position
           (snd (force_close_position [''BTC-USDT'' \<mapsto> 4] open_example ''MAX_HOLD_TIME''
                   failed_response failed_response))) = Some CLOSING
   \<and> place_market_order [''BTC-USDT'' \<mapsto> 4] failed_response
        [A_str ''BTC-USDT'', A_str ''sell'', A_num (1/5), A_str ''MS86BTC2'']
      = Inr (None, Some ''Max retries exceeded'')"
proof -
  let ?pos = "\<lparr>p_inst_id = ''BTC-USDT'', p_state = OPEN, p_entry_order_id = Some ''7001'',
           p_clOrdId = ''MS86BTC1'', p_attach_algo_id = None,
           p_tp_price = 504/5, p_sl_price = 497/5, p_tp_bps = 80, p_sl_bps = 60, p_atr = 1,
           p_rr = 77/43, p_time = 1000, p_entry_price = Some 100, p_entry_size = Some (1/5),
           p_entry_fee = Some (1/50), p_peak_price = Some 100, p_exit_order_id = None,
           p_exit_type = None\<rparr>"
  have a: "active_position open_example = Some ?pos" by (simp add: open_example_def)
  have "force_close_position [''BTC-USDT'' \<mapsto> 4] open_example ''MAX_HOLD_TIME''
          failed_response failed_response =
        (Some TypeError, open_example\<lparr>active_position := Some (?pos\<lparr>p_state := CLOSING\<rparr>)\<rparr>)"
    by (rule force_close_position_raises [OF a, where size_to_sell = "1/5"])
       (simp_all add: truthy_str_def)
  moreover have "place_market_order [''BTC-USDT'' \<mapsto> 4] failed_response
        [A_str ''BTC-USDT'', A_str ''sell'', A_num (1/5), A_str ''MS86BTC2'']
      = Inr (None, Some ''Max retries exceeded'')"
    by (simp add: place_market_order_def place_market_order_body_def failed_response_def
        or_default_def)
  ultimately show ?thesis by simp
qed

section \<open>Interleavings: the position lock and the single position\<close>

lemma handle_bbo_data_position:
  "handle_bbo_data s i msgs now = (e, s', sp) \<Longrightarrow> active_position s' = active_position s"
  by (auto simp: handle_bbo_data_def Let_def split: list.splits option.splits if_splits sum.splits)

lemma handle_trade_position: "active_position (handle_trade s i tr now) = active_position s"
  by (simp add: handle_trade_def split: option.splits sum.splits)

lemma handle_trade_data_position:
  "active_position (handle_trade_data s i trs) = active_position s"
  by (induction s i trs rule: handle_trade_data.induct) (simp_all add: handle_trade_position)

lemma setup_return_position:
  "setup_return r s i = (out, s') \<Longrightarrow> active_position s' = active_position s"
  by (auto simp: setup_return_def pop_last_armed_high_def split: setup_outcome.splits option.splits)

lemma check_setup_conditions_position:
  assumes "check_setup_conditions sc s i now = (out, s')"
  shows "active_position s' = active_position s"
proof (cases "setup_breakout sc s i")
  case (Return r)
  with assms show ?thesis
    by (simp add: check_setup_conditions_def setup_return_position)
next
  case (Continue x)
  obtain p h b where x: "x = (p, h, b)" by (cases x)
  show ?thesis
  proof (cases "setup_targets sc (bar_aggregators s i) p b now")
    case (Return r)
    with assms Continue x show ?thesis
      by (auto simp: check_setup_conditions_def Let_def split: if_splits
          dest: setup_return_position)
  next
    case (Continue c)
    with assms \<open>setup_breakout sc s i = Continue x\<close> x show ?thesis
      by (auto simp: check_setup_conditions_def Let_def split: if_splits)
  qed
qed

lemma check_execution_locked_position:
  assumes "check_execution_locked cfg s i now now_risk = (out, s')"
  shows "active_position s' = active_position s"
  using assms
  by (auto simp: check_execution_locked_def Let_def
      split: if_splits option.splits prod.splits sum.splits)

lemma enter_after_balance_position:
  "enter_after_balance ec s sig balance = (r, s') \<Longrightarrow> active_position s' = active_position s"
  by (auto simp: enter_after_balance_def Let_def split: option.splits if_splits sum.splits)

lemma task_of_not_holding: "filter holds_lock (map task_of sp) = []"
proof -
  have "\<not> holds_lock (task_of x)" for x by (cases x) simp_all
  then show ?thesis by (simp add: filter_empty_conv)
qed

lemma initial_lock_inv: "initial sys \<Longrightarrow> lock_inv sys"
  by (simp add: initial_def lock_inv_def filter_empty_conv)

lemma step_lock_inv:
  assumes "step cfg sys sys'" "lock_inv sys"
  shows "lock_inv sys'"
  using assms
proof (cases rule: step.cases)
  case (on_bbo i msgs server_now e s' sp)
  with assms(2) show ?thesis
    by (simp add: lock_inv_def task_of_not_holding handle_bbo_data_position)
next
  case (on_trades i trs)
  with assms(2) show ?thesis by (simp add: lock_inv_def handle_trade_data_position)
next
  case (run_setup pre i post now out s')
  with assms(2) show ?thesis by (simp add: lock_inv_def check_setup_conditions_position)
next
  case (run_exec_precheck pre i post)
  with assms(2) show ?thesis by (simp add: lock_inv_def)
next
  case (run_exec_locked pre i post now now_risk out s')
  have "filter holds_lock (case out of Promoted sig \<Rightarrow> [T_enter i sig] | _ \<Rightarrow> []) = []"
    by (cases out) simp_all
  with run_exec_locked assms(2) show ?thesis
    by (simp add: lock_inv_def check_execution_locked_position)
next
  case (run_enter_acquire pre i sig post)
  with assms(2) show ?thesis by (simp add: lock_inv_def enter_check_def)
next
  case (run_enter_balance pre i sig post balance r s' cl_ord_id)
  from run_enter_balance(2) assms(2) have held: "lock_held sys"
    by (simp add: lock_inv_def split: if_splits)
  with assms(2) have none: "active_position (engine sys) = None" by (simp add: lock_inv_def)
  from run_enter_balance(3) have same: "active_position s' = active_position (engine sys)"
    by (rule enter_after_balance_position)
  from run_enter_balance(2) assms(2) held
  have cnt: "length (filter holds_lock pre) + length (filter holds_lock post) = 0"
    by (simp add: lock_inv_def)
  show ?thesis
  proof (cases r)
    case (Inl e)
    with run_enter_balance cnt show ?thesis by (simp add: lock_inv_def)
  next
    case (Inr v)
    with run_enter_balance cnt held none same show ?thesis
      by (cases v) (simp_all add: lock_inv_def)
  qed
next
  case (run_enter_submit pre i sig cl_ord_id post resp now)
  from run_enter_submit(2) assms(2) have held: "lock_held sys"
    by (simp add: lock_inv_def split: if_splits)
  from run_enter_submit(2) assms(2) held
  have cnt: "length (filter holds_lock pre) + length (filter holds_lock post) = 0"
    by (simp add: lock_inv_def)
  with run_enter_submit show ?thesis by (simp add: lock_inv_def)
qed

lemma reachable_lock_inv:
  assumes "(step cfg)\<^sup>*\<^sup>* sys0 sys" "initial sys0"
  shows "lock_inv sys"
  using assms
  by (induction rule: rtranclp_induct) (auto intro: initial_lock_inv step_lock_inv)

lemma lock_inv_holder:
  assumes "lock_inv sys" "t \<in> set (tasks sys)" "holds_lock t"
  shows "lock_held sys \<and> active_position (engine sys) = None"
proof -
  from assms(2,3) have "filter holds_lock (tasks sys) \<noteq> []"
    by (simp add: filter_empty_conv) blast
  then have "length (filter holds_lock (tasks sys)) \<noteq> 0" by simp
  with assms(1) show ?thesis by (auto simp: lock_inv_def split: if_splits)
qed

lemma step_changes_position:
  assumes "step cfg sys sys'"
    and "active_position (engine sys') \<noteq> active_position (engine sys)"
  shows "\<exists>pre i sig cl post. tasks sys = pre @ T_enter_submit i sig cl # post"
  using assms
proof (cases rule: step.cases)
  case (on_bbo i msgs server_now e s' sp)
  with assms(2) show ?thesis by (simp add: handle_bbo_data_position)
next
  case (on_trades i trs)
  with assms(2) show ?thesis by (simp add: handle_trade_data_position)
next
  case (run_setup pre i post now out s')
  with assms(2) show ?thesis by (simp add: check_setup_conditions_position)
next
  case (run_exec_precheck pre i post)
  with assms(2) show ?thesis by simp
next
  case (run_exec_locked pre i post now now_risk out s')
  with assms(2) show ?thesis by (simp add: check_execution_locked_position)
next
  case (run_enter_acquire pre i sig post)
  with assms(2) show ?thesis by (simp split: if_splits)
next
  case (run_enter_balance pre i sig post balance r s' cl_ord_id)
  from run_enter_balance(3) have "active_position s' = active_position (engine sys)"
    by (rule enter_after_balance_position)
  with run_enter_balance assms(2) show ?thesis
    by (auto split: sum.splits option.splits)
next
  case (run_enter_submit pre i sig cl_ord_id post resp now)
  then show ?thesis by blast
qed

text \<open>
  C1. From any start with the lock free, in every state that the interleavings of
  market-data messages, setup scans, confirmation scans and entry tasks can reach:
  at most one task is inside the locked region, and the lock is then held; an entry task
  that has passed its re-check and waits for the balance or for the answer to its entry
  submission holds the lock, and no position exists; a step changes the position only by
  the commit of such an entry task, made while no position exists; so a position that
  exists is never replaced by a second one.
\<close>

theorem single_position:
  assumes "initial sys0" "(step cfg)\<^sup>*\<^sup>* sys0 sys"
  shows "length (filter holds_lock (tasks sys)) \<le> 1
         \<and> (\<forall>t \<in> set (tasks sys). holds_lock t \<longrightarrow>
               lock_held sys \<and> active_position (engine sys) = None)
         \<and> (\<forall>sys'. step cfg sys sys'
               \<and> active_position (engine sys') \<noteq> active_position (engine sys) \<longrightarrow>
               active_position (engine sys) = None \<and> lock_held sys
               \<and> (\<exists>pre i sig cl post. tasks sys = pre @ T_enter_submit i sig cl # post))
         \<and> (\<forall>sys' p. step cfg sys sys' \<and> active_position (engine sys) = Some p \<longrightarrow>
               active_position (engine sys') = Some p)"
proof -
  from reachable_lock_inv [OF assms(2,1)] have inv: "lock_inv sys" .
  have 1: "length (filter holds_lock (tasks sys)) \<le> 1"
    using inv by (simp add: lock_inv_def)
  have 2: "\<forall>t \<in> set (tasks sys). holds_lock t \<longrightarrow>
               lock_held sys \<and> active_position (engine sys) = None"
    using lock_inv_holder [OF inv] by blast
  have 3: "\<forall>sys'. step cfg sys sys'
               \<and> active_position (engine sys') \<noteq> active_position (engine sys) \<longrightarrow>
               active_position (engine sys) = None \<and> lock_held sys
               \<and> (\<exists>pre i sig cl post. tasks sys = pre @ T_enter_submit i sig cl # post)"
  proof (intro allI impI)
    fix sys'
    assume a: "step cfg sys sys'
               \<and> active_position (engine sys') \<noteq> active_position (engine sys)"
    then obtain pre i sig cl post where t: "tasks sys = pre @ T_enter_submit i sig cl # post"
      using step_changes_position by blast
    then have "T_enter_submit i sig cl \<in> set (tasks sys)" by simp
    with 2 have "lock_held sys \<and> active_position (engine sys) = None" by fastforce
    with t show "active_position (engine sys) = None \<and> lock_held sys
               \<and> (\<exists>pre i sig cl post. tasks sys = pre @ T_enter_submit i sig cl # post)"
      by blast
  qed
  have 4: "\<forall>sys' p. step cfg sys sys' \<and> active_position (engine sys) = Some p \<longrightarrow>
               active_position (engine sys') = Some p"
  proof (intro allI impI)
    fix sys' p
    assume a: "step cfg sys sys' \<and> active_position (engine sys) = Some p"
    show "active_position (engine sys') = Some p"
    proof (rule ccontr)
      assume "active_position (engine sys') \<noteq> Some p"
      with a have "step cfg sys sys'
               \<and> active_position (engine sys') \<noteq> active_position (engine sys)" by simp
      with 3 have "active_position (engine sys) = None" by blast
      with a show False by simp
    qed
  qed
  from 1 2 3 4 show ?thesis by blast
qed
lemma race_step_acquire: "step default_config race_start race_locked"
proof -
  have "step default_config race_start
          (if enter_check (engine race_start)
           then race_start\<lparr>lock_held := True,
                  tasks := [] @ T_enter_balance ''BTC-USDT'' example_signal
                                # [T_enter ''ETH-USDT'' example_signal]\<rparr>
           else race_start\<lparr>tasks := [] @ [T_enter ''ETH-USDT'' example_signal]\<rparr>)"
    by (rule step.run_enter_acquire) (simp_all add: race_start_def)
  then show ?thesis
    by (simp add: race_start_def race_locked_def enter_check_def new_sniper_def)
qed

lemma race_step_balance: "step default_config race_locked race_submitting"
proof -
  have b: "enter_after_balance (exec_cfg default_config) (engine race_locked) example_signal
             (Some 1000)
           = (Inr (Some (1/5)), (new_sniper default_config)\<lparr>usdt_balance := 1000\<rparr>)"
    by (simp add: enter_after_balance_def race_locked_def default_config_def
        default_exec_config_def example_signal_def dec_div_def Let_def)
  have "step default_config race_locked
          (case (Inr (Some (1/5)) :: py_error + real option) of
             Inr (Some size_base) \<Rightarrow>
               race_locked\<lparr>engine := (new_sniper default_config)\<lparr>usdt_balance := 1000\<rparr>,
                  tasks := [] @ T_enter_submit ''BTC-USDT'' example_signal ''MS86BTC1''
                                # [T_enter ''ETH-USDT'' example_signal]\<rparr>
           | _ \<Rightarrow> race_locked\<lparr>engine := (new_sniper default_config)\<lparr>usdt_balance := 1000\<rparr>,
                     lock_held := False,
                     tasks := [] @ [T_enter ''ETH-USDT'' example_signal]\<rparr>)"
    by (rule step.run_enter_balance [OF _ b]) (simp add: race_locked_def)
  then show ?thesis by (simp add: race_locked_def race_submitting_def)
qed

lemma race_step_submit: "step default_config race_submitting race_committed"
proof -
  have "step default_config race_submitting
          (race_submitting\<lparr>engine := enter_commit (engine race_submitting) ''BTC-USDT''
                                       example_signal ''MS86BTC1'' example_entry_response 1002,
             lock_held := False, tasks := [] @ [T_enter ''ETH-USDT'' example_signal]\<rparr>)"
    by (rule step.run_enter_submit) (simp add: race_submitting_def)
  then show ?thesis by (simp add: race_submitting_def race_committed_def)
qed

lemma race_committed_position:
  "\<exists>p. active_position (engine race_committed) = Some p \<and> p_inst_id p = ''BTC-USDT''
        \<and> p_state p = PENDING_ENTRY"
  by (simp add: race_committed_def enter_commit_def example_entry_response_def truthy_str_def)

lemma race_step_second: "step default_config race_committed race_done"
proof -
  have "step default_config race_committed
          (if enter_check (engine race_committed)
           then race_committed\<lparr>lock_held := True,
                  tasks := [] @ T_enter_balance ''ETH-USDT'' example_signal # []\<rparr>
           else race_committed\<lparr>tasks := [] @ []\<rparr>)"
    by (rule step.run_enter_acquire) (simp_all add: race_committed_def)
  moreover have "\<not> enter_check (engine race_committed)"
    using race_committed_position by (auto simp: enter_check_def)
  ultimately show ?thesis by (simp add: race_committed_def race_done_def)
qed

theorem single_position_witness:
  "initial race_start
   \<and> (step default_config)\<^sup>*\<^sup>* race_start race_submitting
   \<and> holds_lock (T_enter_submit ''BTC-USDT'' example_signal ''MS86BTC1'')
   \<and> T_enter_submit ''BTC-USDT'' example_signal ''MS86BTC1'' \<in> set (tasks race_submitting)
   \<and> lock_held race_submitting \<and> active_position (engine race_submitting) = None
   \<and> length (filter holds_lock (tasks race_submitting)) \<le> 1
   \<and> step default_config race_submitting race_committed
   \<and> active_position (engine race_committed) \<noteq> active_position (engine race_submitting)
   \<and> (step default_config)\<^sup>*\<^sup>* race_start race_committed
   \<and> step default_config race_committed race_done
   \<and> active_position (engine race_committed) \<noteq> None
   \<and> active_position (engine race_done) = active_position (engine race_committed)"
proof -
  have i: "initial race_start" by (simp add: initial_def race_start_def)
  have r2: "(step default_config)\<^sup>*\<^sup>* race_start race_submitting"
    using race_step_acquire race_step_balance by (meson rtranclp.simps)
  have r3: "(step default_config)\<^sup>*\<^sup>* race_start race_committed"
    using r2 race_step_submit by (meson rtranclp.simps)
  have h: "holds_lock (T_enter_submit ''BTC-USDT'' example_signal ''MS86BTC1'')" by simp
  have m: "T_enter_submit ''BTC-USDT'' example_signal ''MS86BTC1'' \<in> set (tasks race_submitting)"
    by (simp add: race_submitting_def)
  note a = single_position [OF i r2]
  note b = single_position [OF i r3]
  from a h m have l: "lock_held race_submitting \<and> active_position (engine race_submitting) = None"
    by blast
  from a have c: "length (filter holds_lock (tasks race_submitting)) \<le> 1" by blast
  from race_committed_position obtain p where
    p: "active_position (engine race_committed) = Some p" by blast
  with l have ch: "active_position (engine race_committed)
                     \<noteq> active_position (engine race_submitting)" by simp
  from b race_step_second p have "active_position (engine race_done) = Some p" by blast
  with p have same: "active_position (engine race_done) = active_position (engine race_committed)"
    by simp
  from p have ne: "active_position (engine race_committed) \<noteq> None" by simp
  from i r2 h m l c race_step_submit ch r3 race_step_second ne same show ?thesis by blast
qed

section \<open>Confirmation scan: a candidate is consumed once\<close>



lemma armed_example_confirmations:
  "confirmations default_exec_config
     (armed_example\<lparr>risk_manager := rs\<rparr>) ''BTC-USDT'' = Inr (Inr (Some (2000/1001)))"
  by (simp add: confirmations_def armed_example_def new_sniper_def default_exec_config_def
      default_config_def dec_div_def zscore_confirms_def volume_confirms_def
      imbalance_confirms_def new_aggregator_def Let_def)

lemma armed_example_promoted:
  "fst (check_execution_locked default_config armed_example ''BTC-USDT'' 1001 1001)
     = Promoted (example_signal\<lparr>c_imbalance := Some (2000/1001)\<rparr>)"
proof -
  have r: "fst (can_open_position default_risk_config new_risk_manager (Some ''BTC-USDT'') 0 1001)
             = (True, '''')"
    by (simp add: can_open_position_def default_risk_config_def new_risk_manager_def Let_def)
  have e: "exec_cfg default_config = default_exec_config" "risk_cfg default_config = default_risk_config"
    by (simp_all add: default_config_def)
  have a: "armed_candidates armed_example ''BTC-USDT'' = Some (example_signal\<lparr>c_imbalance := None\<rparr>)"
    "active_position armed_example = None" "risk_manager armed_example = new_risk_manager"
    by (simp_all add: armed_example_def new_sniper_def)
  have t: "\<not> 1001 - c_time (example_signal\<lparr>c_imbalance := None\<rparr>)
                > ARMED_CANDIDATE_TIMEOUT_SEC default_exec_config"
    by (simp add: example_signal_def default_exec_config_def)
  obtain rs where c: "can_open_position default_risk_config new_risk_manager
                        (Some ''BTC-USDT'') 0 1001 = ((True, ''''), rs)"
    using r by (cases "can_open_position default_risk_config new_risk_manager
                        (Some ''BTC-USDT'') 0 1001") auto
  have pd: "pairs_data armed_example ''BTC-USDT'' =
              Some \<lparr>last_armed_high = None, best_bid = Some 100, best_ask = Some (1001/10),
                    mid = Some (2001/20), order_book = Some ([[100, 10]], [[1001/10, 5]])\<rparr>"
    by (simp add: armed_example_def)
  show ?thesis
    unfolding check_execution_locked_def
    using t by (simp add: e a c armed_example_confirmations pd Let_def)
qed












lemma new_aggregator_zscore:
  "zscore_confirms ec (new_aggregator p n) = Inr False"
  by (simp add: zscore_confirms_def new_aggregator_def)

lemma new_aggregator_volume:
  "volume_confirms ec (new_aggregator p n) = Inr False"
  by (simp add: volume_confirms_def new_aggregator_def)




lemma fresh_risk_admits:
  "can_open_position default_risk_config new_risk_manager (Some ''BTC-USDT'') 0 1001 =
     ((True, ''''),
      new_risk_manager\<lparr>pair_trade_times := (pair_trade_times new_risk_manager)(''BTC-USDT'' := [])\<rparr>)"
  by (simp add: can_open_position_def default_risk_config_def new_risk_manager_def Let_def)














section \<open>Market-data handlers: the snapshot of an anomalous book\<close>

lemma exec_raises_on_zero_ask:
  assumes ap: "active_position s = None"
    and ac: "armed_candidates s i = Some cand"
    and fresh: "now - c_time cand \<le> 20"
    and risk: "can_open_position default_risk_config (risk_manager s) (Some i) 0 nr
                 = ((True, ''''), rs)"
    and pd: "pairs_data s i =
             Some \<lparr>last_armed_high = None, best_bid = Some 0, best_ask = Some 0,
                   mid = Some 0, order_book = Some ([[0, 1]], [[0, 1]])\<rparr>"
  shows "check_execution_locked default_config s i now nr =
           (ExError DecimalError,
            s\<lparr>risk_manager := rs, armed_candidates := (armed_candidates s)(i := None)\<rparr>)"
proof -
  have e: "exec_cfg default_config = default_exec_config"
    "risk_cfg default_config = default_risk_config"
    by (simp_all add: default_config_def)
  have t: "\<not> now - c_time cand > ARMED_CANDIDATE_TIMEOUT_SEC default_exec_config"
    using fresh by (simp add: default_exec_config_def)
  have c: "confirmations default_exec_config (s\<lparr>risk_manager := rs\<rparr>) i = Inl DecimalError"
    by (simp add: confirmations_def dec_div_def pd)
  show ?thesis
    unfolding check_execution_locked_def
    using t by (simp add: e ap ac risk c Let_def)
qed

text \<open>
  C8. A top-of-book update whose mid price is not positive is not skipped without a trace:
  \<^verbatim>\<open>handle_bbo_data\<close> writes the snapshot before it tests the mid price, while the guard
  for a missing side and the guard of the trade handler return before any write. On an
  engine with an armed candidate and a sound snapshot, an update with both best prices 0
  replaces the snapshot by one with mid 0; the confirmation scan that would have promoted
  the candidate then raises on the spread division, and its handler deletes the candidate.
\<close>

theorem handle_bbo_data_stores_anomalous_snapshot:
  "bbo_mid zero_book = Some 0
   \<and> pairs_data armed_example ''BTC-USDT'' =
       Some \<lparr>last_armed_high = None, best_bid = Some 100, best_ask = Some (1001/10),
             mid = Some (2001/20), order_book = Some ([[100, 10]], [[1001/10, 5]])\<rparr>
   \<and> handle_bbo_data armed_example ''BTC-USDT'' [zero_book] 1001 =
       (None,
        armed_example\<lparr>pairs_data := (pairs_data armed_example)(''BTC-USDT'' \<mapsto>
          \<lparr>last_armed_high = None, best_bid = Some 0, best_ask = Some 0, mid = Some 0,
           order_book = Some ([[0, 1]], [[0, 1]])\<rparr>)\<rparr>,
        [])
   \<and> fst (check_execution_locked default_config armed_example ''BTC-USDT'' 1001 1001)
       = Promoted (example_signal\<lparr>c_imbalance := Some (2000/1001)\<rparr>)
   \<and> fst (check_execution_locked default_config
            (fst (snd (handle_bbo_data armed_example ''BTC-USDT'' [zero_book] 1001)))
            ''BTC-USDT'' 1001 1001) = ExError DecimalError
   \<and> armed_candidates
       (snd (check_execution_locked default_config
               (fst (snd (handle_bbo_data armed_example ''BTC-USDT'' [zero_book] 1001)))
               ''BTC-USDT'' 1001 1001)) ''BTC-USDT'' = None"
proof -
  let ?z = "\<lparr>last_armed_high = None, best_bid = Some 0, best_ask = Some 0, mid = Some (0::real),
            order_book = Some ([[0, 1]], [[0, 1]])\<rparr>"
  let ?s = "armed_example\<lparr>pairs_data := (pairs_data armed_example)(''BTC-USDT'' \<mapsto> ?z)\<rparr>"
  have m: "bbo_mid zero_book = Some 0" by (simp add: bbo_mid_def zero_book_def)
  have o: "pairs_data armed_example ''BTC-USDT'' =
       Some \<lparr>last_armed_high = None, best_bid = Some 100, best_ask = Some (1001/10),
             mid = Some (2001/20), order_book = Some ([[100, 10]], [[1001/10, 5]])\<rparr>"
    by (simp add: armed_example_def)
  have h: "handle_bbo_data armed_example ''BTC-USDT'' [zero_book] 1001 = (None, ?s, [])"
    by (simp add: handle_bbo_data_def zero_book_def falsy_side_def o Let_def)
  have x: "check_execution_locked default_config ?s ''BTC-USDT'' 1001 1001 =
        (ExError DecimalError,
         ?s\<lparr>risk_manager := new_risk_manager\<lparr>pair_trade_times :=
                 (pair_trade_times new_risk_manager)(''BTC-USDT'' := [])\<rparr>,
             armed_candidates := (armed_candidates ?s)(''BTC-USDT'' := None)\<rparr>)"
    by (rule exec_raises_on_zero_ask [where cand = "example_signal\<lparr>c_imbalance := None\<rparr>"])
       (simp_all add: armed_example_def new_sniper_def fresh_risk_admits example_signal_def)
  from m o h x armed_example_promoted show ?thesis by simp
qed

end
